theory Spec2Isabelle
  imports Main "HOL-Library.Word"
begin

section \<open>The trust-chain validator of src/security/validator.cpp\<close>

text \<open>
  The development has two halves, as the source file has: the asynchronous orchestration
  (\<open>validate\<close>, \<open>onData\<close>, \<open>onTimeout\<close>), modelled by explicit state passing over a
  world that holds the validator's face handle, the face's table of pending fetches, the
  store of ValidationRequest objects and a trace of the calls the validator makes; and the
  signature checks (\<open>verifySignature\<close> in its six overloads), modelled as computations
  that log every call into the encoding and cryptographic libraries.
\<close>

subsection \<open>Data model\<close>

type_synonym byte = "8 word"

type_synonym buffer = "byte list"

text \<open>A name is a sequence of opaque binary components.\<close>

type_synonym Name = "buffer list"

text \<open>
  A TLV element (class Block): the bytes of its type-and-length header, the bytes of its
  value, and its parsed sub-elements. \<open>size()\<close> counts the whole element,
  \<open>value()\<close> and \<open>value_size()\<close> only the part after the header.
\<close>

datatype Block = Block (header: buffer) (val: buffer) (getAll: "Block list")

definition block_size :: "Block \<Rightarrow> nat" where
  "block_size b = length (header b) + length (val b)"

definition value_size :: "Block \<Rightarrow> nat" where
  "value_size b = length (val b)"

definition wire :: "Block \<Rightarrow> buffer" where
  "wire b = header b @ val b"

text \<open>
  The signature kinds: the source dispatches on \<open>Signature::Sha256WithRsa\<close> and sends
  every other value of the type field to \<open>default\<close>.
\<close>

datatype SignatureType = Sha256 | Sha256WithRsa | Unknown_type int

record Signature =
  getType :: SignatureType
  getInfo :: Block
  getValue :: Block

record Interest =
  interest_name :: Name

record Data =
  data_name :: Name
  data_content :: buffer
  getSignature :: Signature

record PublicKey =
  key_bits :: buffer

text \<open>The subject of a validation is a request or a signed object.\<close>

datatype subject = Subject_Interest Interest | Subject_Data Data

subsection \<open>Continuations, ValidationRequests and the world\<close>

text \<open>
  The caller's continuations are opaque function objects; the model names them by a
  number and records every invocation the validator makes in the trace.
\<close>

type_synonym callback = nat

text \<open>
  \<open>OnFailure onFailure = bind(onValidationFailed, subject)\<close>: a failure continuation
  together with the subject it will be called with.
\<close>

datatype OnFailure = Bind_failed callback subject

text \<open>
  ValidationRequest objects live in a store and are held through shared pointers, which
  the model writes as addresses.
\<close>

type_synonym ref = nat

record ValidationRequest =
  m_interest :: Interest
  m_onValidated :: callback
  m_onDataValidated :: callback
  m_retry :: int
  m_stepCount :: int

type_synonym store = "ref \<rightharpoonup> ValidationRequest"

text \<open>
  The two callbacks handed to \<open>expressInterest\<close>:
  \<open>bind(&Validator::onData, this, _1, _2, nextStep)\<close> and
  \<open>bind(&Validator::onTimeout, this, _1, retry, onFailure, nextStep)\<close>.
\<close>

datatype OnData_cb = OnData_bound ref

datatype OnTimeout_cb = OnTimeout_bound int OnFailure ref

record PendingInterest =
  pi_interest :: Interest
  pi_onData :: OnData_cb
  pi_onTimeout :: OnTimeout_cb

text \<open>What the validator is seen to do: call the policy, call the face, call a continuation.\<close>

datatype action =
    CheckPolicy subject int callback callback
  | ExpressInterest Interest OnData_cb OnTimeout_cb
  | Invoke OnFailure

text \<open>
  The world: whether the validator's \<open>m_face\<close> pointer is set, the face's table of
  pending fetches (in the order of registration), the store, and the trace.
\<close>

record world =
  m_face :: bool
  pit :: "PendingInterest list"
  heap :: store
  trace :: "action list"

text \<open>
  A call returns, throws the \<open>Error\<close> of line 38 and 69, or dereferences a null pointer
  (the face handle or a ValidationRequest pointer), which C++ leaves undefined.
\<close>

datatype outcome = Returned | Thrown_Face_not_set | Null_dereference

text \<open>
  \<open>checkPolicy\<close> is pure virtual and its implementations are not part of this source
  file, so it is a parameter: from the subject, the step count, the two continuations and
  the store it yields the requests it returns and the store with those requests in it.
  What \<open>checkPolicy\<close> does with the continuations itself (it may call one at once) is
  not an action of the validator and is not recorded in the trace.
\<close>

type_synonym policy =
  "subject \<Rightarrow> int \<Rightarrow> callback \<Rightarrow> callback \<Rightarrow> store \<Rightarrow> ref list \<times> store"

subsection \<open>The face\<close>

text \<open>
  \<open>expressInterest\<close> registers the fetch with its two callbacks in the table of pending
  fetches.
\<close>

definition expressInterest :: "Interest \<Rightarrow> OnData_cb \<Rightarrow> OnTimeout_cb \<Rightarrow> world \<Rightarrow> world" where
  "expressInterest i d t s =
     s\<lparr>pit := pit s @ [\<lparr>pi_interest = i, pi_onData = d, pi_onTimeout = t\<rparr>],
       trace := trace s @ [ExpressInterest i d t]\<rparr>"

subsection \<open>Validator::validate, Validator::onData, Validator::onTimeout\<close>

text \<open>
  The loop of lines 42 to 48 (and 73 to 79): one \<open>expressInterest\<close> per request, with
  the request's own interest and retry count, and the failure continuation of the
  enclosing \<open>validate\<close> call.
\<close>

fun express_all :: "OnFailure \<Rightarrow> ref list \<Rightarrow> world \<Rightarrow> outcome \<times> world" where
  "express_all onFailure [] s = (Returned, s)"
| "express_all onFailure (it # rest) s =
     (case heap s it of
        None \<Rightarrow> (Null_dereference, s)
      | Some r \<Rightarrow>
          express_all onFailure rest
            (expressInterest (m_interest r) (OnData_bound it)
               (OnTimeout_bound (m_retry r) onFailure it) s))"

text \<open>
  The two overloads of \<open>validate\<close> (lines 26 to 55 for a request, 57 to 86 for a signed
  object) have the same body; \<open>validate\<close> is that body over either subject.
\<close>

definition validate ::
  "policy \<Rightarrow> subject \<Rightarrow> callback \<Rightarrow> callback \<Rightarrow> int \<Rightarrow> world \<Rightarrow> outcome \<times> world" where
  "validate checkPolicy subj onValidated onValidationFailed stepCount s =
     (let (nextSteps, h) = checkPolicy subj stepCount onValidated onValidationFailed (heap s);
          s1 = s\<lparr>heap := h,
                 trace := trace s @ [CheckPolicy subj stepCount onValidated onValidationFailed]\<rparr>
      in if nextSteps \<noteq> [] then
           if \<not> m_face s1 then (Thrown_Face_not_set, s1)
           else express_all (Bind_failed onValidationFailed subj) nextSteps s1
         else (Returned, s1))"

definition validate_interest ::
  "policy \<Rightarrow> Interest \<Rightarrow> callback \<Rightarrow> callback \<Rightarrow> int \<Rightarrow> world \<Rightarrow> outcome \<times> world" where
  "validate_interest checkPolicy interest = validate checkPolicy (Subject_Interest interest)"

definition validate_data ::
  "policy \<Rightarrow> Data \<Rightarrow> callback \<Rightarrow> callback \<Rightarrow> int \<Rightarrow> world \<Rightarrow> outcome \<times> world" where
  "validate_data checkPolicy data = validate checkPolicy (Subject_Data data)"

definition onData :: "policy \<Rightarrow> Interest \<Rightarrow> Data \<Rightarrow> ref \<Rightarrow> world \<Rightarrow> outcome \<times> world" where
  "onData checkPolicy interest data nextStep s =
     (case heap s nextStep of
        None \<Rightarrow> (Null_dereference, s)
      | Some r \<Rightarrow>
          validate_data checkPolicy data (m_onValidated r) (m_onDataValidated r) (m_stepCount r) s)"

text \<open>
  \<open>retry\<close> is a C++ \<open>int\<close>; \<open>retry - 1\<close> is computed only when \<open>retry > 0\<close> and
  cannot wrap, so the model uses unbounded integers.
\<close>

definition onTimeout :: "Interest \<Rightarrow> int \<Rightarrow> OnFailure \<Rightarrow> ref \<Rightarrow> world \<Rightarrow> outcome \<times> world" where
  "onTimeout interest retry onFailure nextStep s =
     (if retry > 0 then
        if \<not> m_face s then (Null_dereference, s)
        else (Returned,
              expressInterest interest (OnData_bound nextStep)
                (OnTimeout_bound (retry - 1) onFailure nextStep) s)
      else (Returned, s\<lparr>trace := trace s @ [Invoke onFailure]\<rparr>))"

subsection \<open>The event loop\<close>

text \<open>
  The face answers each pending fetch once, with the data or with a timeout: it takes the
  entry out of its table and calls the callback registered for the event, passing the
  interest of the entry. An event for an entry that is not in the table does nothing.
\<close>

datatype face_event = Data_arrives nat Data | Times_out nat

definition remove_nth :: "nat \<Rightarrow> 'a list \<Rightarrow> 'a list" where
  "remove_nth i xs = take i xs @ drop (Suc i) xs"

fun fire :: "policy \<Rightarrow> face_event \<Rightarrow> world \<Rightarrow> outcome \<times> world" where
  "fire checkPolicy (Data_arrives i d) s =
     (if i < length (pit s) then
        (case pi_onData (pit s ! i) of
           OnData_bound nextStep \<Rightarrow>
             onData checkPolicy (pi_interest (pit s ! i)) d nextStep
               (s\<lparr>pit := remove_nth i (pit s)\<rparr>))
      else (Returned, s))"
| "fire checkPolicy (Times_out i) s =
     (if i < length (pit s) then
        (case pi_onTimeout (pit s ! i) of
           OnTimeout_bound retry onFailure nextStep \<Rightarrow>
             onTimeout (pi_interest (pit s ! i)) retry onFailure nextStep
               (s\<lparr>pit := remove_nth i (pit s)\<rparr>))
      else (Returned, s))"

text \<open>A run of events stops at the first call that does not return.\<close>

fun run :: "policy \<Rightarrow> face_event list \<Rightarrow> world \<Rightarrow> outcome \<times> world" where
  "run checkPolicy [] s = (Returned, s)"
| "run checkPolicy (e # es) s =
     (case fire checkPolicy e s of
        (Returned, s') \<Rightarrow> run checkPolicy es s'
      | (out, s') \<Rightarrow> (out, s'))"

subsection \<open>Signature checks: the libraries\<close>

text \<open>
  The handlers of the source name two exception classes, \<open>Signature::Error\<close> and
  \<open>Block::Error\<close>; \<open>Other_exception\<close> stands for an exception of any other class
  (those of the cryptographic library, for one).
\<close>

datatype exception = Signature_Error | Block_Error | Other_exception

text \<open>
  The encoding and cryptographic libraries are not part of this source file, so they are
  parameters. Each operation returns its result or the exception it throws.
  \<open>SignatureSha256WithRsa_of\<close> is the converting constructor of lines 118, 154 and 183,
  \<open>Signature_of\<close> the two-block constructor of line 148, \<open>Load\<close> and
  \<open>VerifyMessage\<close> the RSA key decoder and the PKCS1v15/SHA256 verifier.
\<close>

text \<open>
  Line 148 passes two \<open>blockFromValue\<close> calls as constructor arguments. C++ leaves
  open which of the two a compiler evaluates first, so the order is a parameter as well,
  carried with the libraries.
\<close>

datatype evaluation_order = Left_to_right | Right_to_left

record 'k library =
  data_wireEncode :: "Data \<Rightarrow> exception + Block"
  name_wireEncode :: "Name \<Rightarrow> exception + Block"
  parse :: "Block \<Rightarrow> exception + Block"
  blockFromValue :: "Block \<Rightarrow> exception + Block"
  Signature_of :: "Block \<Rightarrow> Block \<Rightarrow> exception + Signature"
  SignatureSha256WithRsa_of :: "Signature \<Rightarrow> exception + Signature"
  Load :: "buffer \<Rightarrow> exception + 'k"
  VerifyMessage :: "'k \<Rightarrow> buffer \<Rightarrow> buffer \<Rightarrow> exception + bool"
  argument_order :: evaluation_order

text \<open>
  Every call into a library is logged, with the bytes handed over where a claim is about
  them, so that "without parsing" and "the bytes handed to the verifier" can be stated.
\<close>

datatype lib_call =
    Call_data_wireEncode
  | Call_name_wireEncode
  | Call_parse
  | Call_blockFromValue
  | Call_Signature
  | Call_SignatureSha256WithRsa
  | Call_Load buffer
  | Call_VerifyMessage buffer buffer

text \<open>
  A computation ends with a value, with an exception in flight, or with a read outside a
  buffer or container (undefined in C++).
\<close>

datatype 'a result = Value 'a | Raised exception | Out_of_bounds

type_synonym 'a comp = "lib_call list \<times> 'a result"

definition return_value :: "'a \<Rightarrow> 'a comp" where
  "return_value x = ([], Value x)"

definition and_then :: "'a comp \<Rightarrow> ('a \<Rightarrow> 'b comp) \<Rightarrow> 'b comp" where
  "and_then m f =
     (case m of
        (l, Value x) \<Rightarrow> (case f x of (l', r) \<Rightarrow> (l @ l', r))
      | (l, Raised e) \<Rightarrow> (l, Raised e)
      | (l, Out_of_bounds) \<Rightarrow> (l, Out_of_bounds))"

definition call :: "lib_call \<Rightarrow> exception + 'a \<Rightarrow> 'a comp" where
  "call c r = ([c], case r of Inl e \<Rightarrow> Raised e | Inr x \<Rightarrow> Value x)"

text \<open>Every handler of the source logs and returns \<open>false\<close>.\<close>

definition try_catch :: "bool comp \<Rightarrow> (exception \<Rightarrow> bool) \<Rightarrow> bool comp" where
  "try_catch m handled =
     (case m of
        (l, Raised e) \<Rightarrow> if handled e then (l, Value False) else (l, Raised e)
      | (l, r) \<Rightarrow> (l, r))"

text \<open>Subtraction of two \<open>size_t\<close> values wraps around at 64 bits.\<close>

definition size_t_minus :: "nat \<Rightarrow> nat \<Rightarrow> nat" where
  "size_t_minus a b = nat ((int a - int b) mod 2 ^ 64)"

text \<open>Reading \<open>len\<close> bytes from the start of a buffer.\<close>

definition read_bytes :: "buffer \<Rightarrow> nat \<Rightarrow> buffer comp" where
  "read_bytes buf len =
     (if len \<le> length buf then ([], Value (take len buf)) else ([], Out_of_bounds))"

subsection \<open>The RsaSha256 checks (lines 199 to 258)\<close>

text \<open>
  The common body of the three overloads: load the key, then verify the message against
  the value of the signature's SignatureValue element.
\<close>

definition verifySignature_ptr_rsa ::
  "'k library \<Rightarrow> buffer \<Rightarrow> nat \<Rightarrow> Signature \<Rightarrow> PublicKey \<Rightarrow> bool comp" where
  "verifySignature_ptr_rsa lib buf len sig key =
     and_then (call (Call_Load (key_bits key)) (Load lib (key_bits key))) (\<lambda>publicKey.
     and_then (read_bytes buf len) (\<lambda>message.
       call (Call_VerifyMessage message (val (getValue sig)))
         (VerifyMessage lib publicKey message (val (getValue sig)))))"

definition verifySignature_buffer_rsa ::
  "'k library \<Rightarrow> buffer \<Rightarrow> Signature \<Rightarrow> PublicKey \<Rightarrow> bool comp" where
  "verifySignature_buffer_rsa lib data sig key =
     and_then (call (Call_Load (key_bits key)) (Load lib (key_bits key))) (\<lambda>publicKey.
       call (Call_VerifyMessage data (val (getValue sig)))
         (VerifyMessage lib publicKey data (val (getValue sig))))"

text \<open>
  Line 213 calls \<open>data.wireEncode()\<close> twice, once for the start of the message and once
  for its length; the length subtracts the size of the whole SignatureValue element of
  the signature stored in \<open>data\<close>.
\<close>

definition verifySignature_data_rsa ::
  "'k library \<Rightarrow> Data \<Rightarrow> Signature \<Rightarrow> PublicKey \<Rightarrow> bool comp" where
  "verifySignature_data_rsa lib data sig key =
     and_then (call (Call_Load (key_bits key)) (Load lib (key_bits key))) (\<lambda>publicKey.
     and_then (call Call_data_wireEncode (data_wireEncode lib data)) (\<lambda>w1.
     and_then (call Call_data_wireEncode (data_wireEncode lib data)) (\<lambda>w2.
     and_then (read_bytes (val w1)
                 (size_t_minus (value_size w2) (block_size (getValue (getSignature data)))))
       (\<lambda>message.
       call (Call_VerifyMessage message (val (getValue sig)))
         (VerifyMessage lib publicKey message (val (getValue sig)))))))"

subsection \<open>The dispatching checks (lines 111 to 197)\<close>

definition verifySignature_data :: "'k library \<Rightarrow> Data \<Rightarrow> PublicKey \<Rightarrow> bool comp" where
  "verifySignature_data lib data key =
     try_catch
       (case getType (getSignature data) of
          Sha256WithRsa \<Rightarrow>
            and_then (call Call_SignatureSha256WithRsa
                        (SignatureSha256WithRsa_of lib (getSignature data)))
              (\<lambda>sigSha256Rsa. verifySignature_data_rsa lib data sigSha256Rsa key)
        | _ \<Rightarrow> return_value False)
       (\<lambda>e. e = Signature_Error)"

text \<open>
  The two constructor arguments of line 148: \<open>(++rbegin)->blockFromValue()\<close>, the
  element before the last, and \<open>rbegin->blockFromValue()\<close>, the last element. Each
  dereferences its own iterator; where the element does not exist the read is outside the
  container.
\<close>

definition info_argument :: "'k library \<Rightarrow> Block \<Rightarrow> Block comp" where
  "info_argument lib nameBlock =
     (if length (getAll nameBlock) < 2 then ([], Out_of_bounds)
      else call Call_blockFromValue
             (blockFromValue lib (getAll nameBlock ! (length (getAll nameBlock) - 2))))"

definition value_argument :: "'k library \<Rightarrow> Block \<Rightarrow> Block comp" where
  "value_argument lib nameBlock =
     (if getAll nameBlock = [] then ([], Out_of_bounds)
      else call Call_blockFromValue (blockFromValue lib (last (getAll nameBlock))))"

text \<open>
  Lines 143 to 149: encode the name, parse the encoding into its elements when that has
  not been done, evaluate the two constructor arguments in the order the compiler chose,
  and build the signature from them.
\<close>

definition interest_signature :: "'k library \<Rightarrow> Name \<Rightarrow> (Block \<times> Signature) comp" where
  "interest_signature lib interestName =
     and_then (call Call_name_wireEncode (name_wireEncode lib interestName)) (\<lambda>encoded.
     and_then (if length (getAll encoded) \<noteq> length interestName
               then call Call_parse (parse lib encoded) else return_value encoded) (\<lambda>nameBlock.
     and_then (case argument_order lib of
                 Left_to_right \<Rightarrow>
                   and_then (info_argument lib nameBlock) (\<lambda>info.
                   and_then (value_argument lib nameBlock) (\<lambda>value.
                     return_value (info, value)))
               | Right_to_left \<Rightarrow>
                   and_then (value_argument lib nameBlock) (\<lambda>value.
                   and_then (info_argument lib nameBlock) (\<lambda>info.
                     return_value (info, value)))) (\<lambda>(info, value).
     and_then (call Call_Signature (Signature_of lib info value)) (\<lambda>sig.
       return_value (nameBlock, sig)))))"

definition verifySignature_interest :: "'k library \<Rightarrow> Interest \<Rightarrow> PublicKey \<Rightarrow> bool comp" where
  "verifySignature_interest lib interest key =
     (let interestName = interest_name interest in
      if length interestName < 3 then return_value False
      else
        try_catch
          (and_then (interest_signature lib interestName) (\<lambda>(nameBlock, sig).
             case getType sig of
               Sha256WithRsa \<Rightarrow>
                 and_then (call Call_SignatureSha256WithRsa (SignatureSha256WithRsa_of lib sig))
                   (\<lambda>sigSha256Rsa.
                      verifySignature_ptr_rsa lib (val nameBlock)
                        (size_t_minus (value_size nameBlock) (block_size (last (getAll nameBlock))))
                        sigSha256Rsa key)
             | _ \<Rightarrow> return_value False))
          (\<lambda>e. e = Signature_Error \<or> e = Block_Error))"

definition verifySignature_buffer ::
  "'k library \<Rightarrow> buffer \<Rightarrow> Signature \<Rightarrow> PublicKey \<Rightarrow> bool comp" where
  "verifySignature_buffer lib data sig key =
     try_catch
       (case getType sig of
          Sha256WithRsa \<Rightarrow>
            and_then (call Call_SignatureSha256WithRsa (SignatureSha256WithRsa_of lib sig))
              (\<lambda>sigSha256Rsa. verifySignature_buffer_rsa lib data sigSha256Rsa key)
        | _ \<Rightarrow> return_value False)
       (\<lambda>e. e = Signature_Error)"

section \<open>Notions used in the statements\<close>

subsection \<open>Orchestration\<close>

text \<open>The failure continuation bound into a pending fetch's timeout callback.\<close>

definition pi_onFailure :: "PendingInterest \<Rightarrow> OnFailure" where
  "pi_onFailure e = (case pi_onTimeout e of OnTimeout_bound retry onFailure nextStep \<Rightarrow> onFailure)"

text \<open>How often the validator has invoked a failure continuation so far.\<close>

definition fired :: "OnFailure \<Rightarrow> world \<Rightarrow> nat" where
  "fired c s = count_list (trace s) (Invoke c)"

text \<open>How many pending fetches would invoke a failure continuation on exhaustion.\<close>

definition awaiting :: "OnFailure \<Rightarrow> world \<Rightarrow> nat" where
  "awaiting c s = length (filter (\<lambda>e. pi_onFailure e = c) (pit s))"


fun is_timeout :: "face_event \<Rightarrow> bool" where
  "is_timeout (Times_out i) = True"
| "is_timeout (Data_arrives i d) = False"

text \<open>
  The pending fetch of interest \<open>i\<close> for the request at \<open>ns\<close>, with \<open>r\<close> retries left
  and failure continuation \<open>c\<close>: both callbacks are bound to the same request.
\<close>

definition fetch_entry :: "Interest \<Rightarrow> ref \<Rightarrow> OnFailure \<Rightarrow> int \<Rightarrow> PendingInterest" where
  "fetch_entry i ns c r =
     \<lparr>pi_interest = i, pi_onData = OnData_bound ns, pi_onTimeout = OnTimeout_bound r c ns\<rparr>"

text \<open>
  The table entry that the loop of \<open>validate\<close> makes for the request at \<open>it\<close> (used
  for requests that are in the store), and the trace entry of registering a table entry.
\<close>

definition issue :: "store \<Rightarrow> OnFailure \<Rightarrow> ref \<Rightarrow> PendingInterest" where
  "issue h c it = fetch_entry (m_interest (the (h it))) it c (m_retry (the (h it)))"

definition express_action :: "PendingInterest \<Rightarrow> action" where
  "express_action e = ExpressInterest (pi_interest e) (pi_onData e) (pi_onTimeout e)"

text \<open>
  The \<open>expressInterest\<close> calls of the first \<open>k\<close> reissues of a fetch issued with retry
  count \<open>r\<close>, and the first \<open>k\<close> timeouts of the fetch at position \<open>i\<close> of the table
  (a reissued fetch goes to the end of the table).
\<close>

definition reissues :: "Interest \<Rightarrow> ref \<Rightarrow> OnFailure \<Rightarrow> int \<Rightarrow> nat \<Rightarrow> action list" where
  "reissues i ns c r k =
     map (\<lambda>m. ExpressInterest i (OnData_bound ns) (OnTimeout_bound (r - 1 - int m) c ns)) [0..<k]"

definition timeouts_of :: "world \<Rightarrow> nat \<Rightarrow> nat \<Rightarrow> face_event list" where
  "timeouts_of s i k =
     (case k of 0 \<Rightarrow> [] | Suc k' \<Rightarrow> Times_out i # replicate k' (Times_out (length (pit s) - 1)))"


subsection \<open>Signature checks\<close>

definition is_crypto :: "lib_call \<Rightarrow> bool" where
  "is_crypto c = (case c of Call_Load k \<Rightarrow> True | Call_VerifyMessage m g \<Rightarrow> True | _ \<Rightarrow> False)"

text \<open>
  The value of an encoded element without the bytes of a trailing element: an
  abbreviation used in the lemmas about the RsaSha256 checks.
\<close>

definition signed_range :: "Block \<Rightarrow> Block \<Rightarrow> buffer" where
  "signed_range b trailing = take (value_size b - block_size trailing) (val b)"

text \<open>
  The byte range in the words of the specification: the full encoded representation
  (header included) without the bytes of the trailing element.
\<close>

definition spec_signed_range :: "Block \<Rightarrow> Block \<Rightarrow> buffer" where
  "spec_signed_range b trailing = take (block_size b - block_size trailing) (wire b)"

definition verdict :: "exception + bool \<Rightarrow> bool result" where
  "verdict r = (case r of Inl e \<Rightarrow> Raised e | Inr b \<Rightarrow> Value b)"

section \<open>Example instances\<close>

text \<open>
  Small instances of the parameters, on which the theorems below are evaluated: a TLV
  encoder for short values, a library whose key decoder throws on an empty key and whose
  verifier accepts the key bytes followed by the message (with the constructor arguments
  evaluated right to left), and two policies.
\<close>

definition tlv :: "byte \<Rightarrow> buffer \<Rightarrow> Block" where
  "tlv t v = Block [t, of_nat (length v)] v []"

definition name_value :: "Name \<Rightarrow> buffer" where
  "name_value n = concat (map (wire \<circ> tlv 8) n)"

definition stub_library :: "buffer library" where
  "stub_library =
     \<lparr>data_wireEncode = (\<lambda>d.
         Inr (tlv 6 (wire (tlv 7 (name_value (data_name d))) @ wire (tlv 21 (data_content d))
                     @ wire (getInfo (getSignature d)) @ wire (getValue (getSignature d))))),
      name_wireEncode = (\<lambda>n.
         Inr (Block [7, of_nat (length (name_value n))] (name_value n) (map (tlv 8) n))),
      parse = Inr,
      blockFromValue = (\<lambda>b.
         case val b of t # l # rest \<Rightarrow> Inr (Block [t, l] rest []) | _ \<Rightarrow> Inl Block_Error),
      Signature_of = (\<lambda>info v.
         Inr \<lparr>getType = (case val info of
                            [] \<Rightarrow> Unknown_type (- 1)
                          | t # rest \<Rightarrow> if t = 1 then Sha256WithRsa
                                        else if t = 0 then Sha256 else Unknown_type (uint t)),
              getInfo = info, getValue = v\<rparr>),
      SignatureSha256WithRsa_of = (\<lambda>s.
         if getType s = Sha256WithRsa then Inr s else Inl Signature_Error),
      Load = (\<lambda>k. if k = [] then Inl Other_exception else Inr k),
      VerifyMessage = (\<lambda>k m g. Inr (g = k @ m)),
      argument_order = Right_to_left\<rparr>"

definition signature_of_kind :: "byte \<Rightarrow> SignatureType \<Rightarrow> buffer \<Rightarrow> Signature" where
  "signature_of_kind t k g = \<lparr>getType = k, getInfo = tlv 22 [t], getValue = tlv 23 g\<rparr>"

definition signed_data :: Data where
  "signed_data =
     \<lparr>data_name = [[65]], data_content = [66],
      getSignature = signature_of_kind 1 Sha256WithRsa [9, 9]\<rparr>"

definition digest_data :: Data where
  "digest_data =
     \<lparr>data_name = [[65]], data_content = [66], getSignature = signature_of_kind 0 Sha256 [9, 9]\<rparr>"

definition certificate_A :: Data where
  "certificate_A =
     \<lparr>data_name = [[99], [65]], data_content = [67],
      getSignature = signature_of_kind 1 Sha256WithRsa [8, 8]\<rparr>"

definition signed_interest :: Interest where
  "signed_interest = \<lparr>interest_name = [[65], wire (tlv 22 [1]), wire (tlv 23 [9, 9])]\<rparr>"

definition digest_interest :: Interest where
  "digest_interest = \<lparr>interest_name = [[65], wire (tlv 22 [0]), wire (tlv 23 [9, 9])]\<rparr>"

definition short_interest :: Interest where
  "short_interest = \<lparr>interest_name = [[65], [66]]\<rparr>"

definition malformed_interest :: Interest where
  "malformed_interest = \<lparr>interest_name = [[65], [66], [67]]\<rparr>"

text \<open>
  A library whose \<open>blockFromValue\<close> fails on both signature elements, with a
  \<open>Block::Error\<close> on the signature-info element and an exception of another class on
  the signature-value element, under either order of evaluation.
\<close>

definition picky_library :: "evaluation_order \<Rightarrow> buffer library" where
  "picky_library ord =
     stub_library\<lparr>blockFromValue := (\<lambda>b. case val b of
                                              [] \<Rightarrow> Inl Block_Error
                                            | t # rest \<Rightarrow> if t = 22 then Inl Block_Error
                                                          else Inl Other_exception),
                  argument_order := ord\<rparr>"

text \<open>The same library with a converting constructor that rejects every signature.\<close>

definition rejecting_library :: "buffer library" where
  "rejecting_library = stub_library\<lparr>SignatureSha256WithRsa_of := (\<lambda>s. Inl Signature_Error)\<rparr>"

definition some_key :: PublicKey where
  "some_key = \<lparr>key_bits = [5]\<rparr>"

definition empty_key :: PublicKey where
  "empty_key = \<lparr>key_bits = []\<rparr>"

definition request_for ::
  "Name \<Rightarrow> callback \<Rightarrow> callback \<Rightarrow> int \<Rightarrow> int \<Rightarrow> ValidationRequest" where
  "request_for n v f r k =
     \<lparr>m_interest = \<lparr>interest_name = n\<rparr>, m_onValidated = v, m_onDataValidated = f,
      m_retry = r, m_stepCount = k\<rparr>"

text \<open>A policy that asks for two certificates at once, neither to be retried.\<close>

definition two_siblings :: policy where
  "two_siblings subj n v f h =
     ([0, 1], h(0 \<mapsto> request_for [[99], [65]] 10 11 0 (n + 1),
                1 \<mapsto> request_for [[99], [66]] 10 11 0 (n + 1)))"

text \<open>
  A policy that asks for certificate A to decide on \<open>signed_data\<close>, for a further
  certificate to decide on certificate A, and decides everything else at once.
\<close>

definition chain_policy :: policy where
  "chain_policy subj n v f h =
     (if subj = Subject_Data signed_data then ([0], h(0 \<mapsto> request_for [[99], [65]] 10 11 2 (n + 1)))
      else if subj = Subject_Data certificate_A
      then ([1], h(1 \<mapsto> request_for [[99], [66]] 20 21 0 (n + 1)))
      else ([], h))"

definition idle :: "bool \<Rightarrow> world" where
  "idle face = \<lparr>m_face = face, pit = [], heap = Map.empty, trace = []\<rparr>"

text \<open>The world after \<open>validate\<close> on \<open>signed_data\<close> under \<open>chain_policy\<close>: one fetch pending.\<close>

definition one_fetch :: world where
  "one_fetch = snd (validate_data chain_policy signed_data 1 2 0 (idle True))"

definition fetch_A :: PendingInterest where
  "fetch_A =
     fetch_entry \<lparr>interest_name = [[99], [65]]\<rparr> 0 (Bind_failed 2 (Subject_Data signed_data)) 2"

section \<open>Properties of the orchestration\<close>

subsection \<open>What the loop of validate registers\<close>

lemma express_all_prefix:
  "express_all c refs s = (out, s') \<Longrightarrow>
     \<exists>k \<le> length refs.
        s' = s\<lparr>pit := pit s @ map (issue (heap s) c) (take k refs),
               trace := trace s @ map (express_action \<circ> issue (heap s) c) (take k refs)\<rparr>
      \<and> (out = Returned \<longrightarrow> k = length refs)
      \<and> (out \<noteq> Returned \<longrightarrow> out = Null_dereference \<and> k < length refs \<and> heap s (refs ! k) = None)
      \<and> (\<forall>j < k. heap s (refs ! j) \<noteq> None)"
proof (induction refs arbitrary: s)
  case Nil
  then show ?case by auto
next
  case (Cons it rest)
  show ?case
  proof (cases "heap s it")
    case None
    with Cons.prems show ?thesis by (intro exI[of _ 0]) auto
  next
    case (Some r)
    let ?s1 = "expressInterest (m_interest r) (OnData_bound it) (OnTimeout_bound (m_retry r) c it) s"
    from Cons.prems Some have "express_all c rest ?s1 = (out, s')" by simp
    from Cons.IH[OF this] obtain k where k: "k \<le> length rest"
      "s' = ?s1\<lparr>pit := pit ?s1 @ map (issue (heap ?s1) c) (take k rest),
               trace := trace ?s1 @ map (express_action \<circ> issue (heap ?s1) c) (take k rest)\<rparr>"
      "out = Returned \<longrightarrow> k = length rest"
      "out \<noteq> Returned \<longrightarrow> out = Null_dereference \<and> k < length rest \<and> heap ?s1 (rest ! k) = None"
      "\<forall>j < k. heap ?s1 (rest ! j) \<noteq> None"
      by blast
    have h: "heap ?s1 = heap s" by (simp add: expressInterest_def)
    show ?thesis
    proof (intro exI[of _ "Suc k"] conjI)
      show "Suc k \<le> length (it # rest)" using k(1) by simp
      show "s' = s\<lparr>pit := pit s @ map (issue (heap s) c) (take (Suc k) (it # rest)),
               trace := trace s @ map (express_action \<circ> issue (heap s) c) (take (Suc k) (it # rest))\<rparr>"
        using k(2) Some by (simp add: h) (simp add: expressInterest_def issue_def fetch_entry_def express_action_def)
      show "out = Returned \<longrightarrow> Suc k = length (it # rest)" using k(3) by simp
      show "out \<noteq> Returned \<longrightarrow>
              out = Null_dereference \<and> Suc k < length (it # rest) \<and> heap s ((it # rest) ! Suc k) = None"
        using k(4) by (simp add: h)
      show "\<forall>j<Suc k. heap s ((it # rest) ! j) \<noteq> None"
        using k(5) Some by (auto simp: h less_Suc_eq_0_disj)
    qed
  qed
qed


lemma express_action_not_Invoke: "express_action e \<noteq> Invoke c"
  by (simp add: express_action_def)

lemma count_list_map_express:
  "count_list (map (express_action \<circ> g) xs) (Invoke c) = 0"
  by (induction xs) (auto simp: express_action_not_Invoke)

lemma express_all_counts:
  assumes "express_all c refs s = (out, s')"
  shows "fired c' s' = fired c' s" and "awaiting c' s' \<le> awaiting c' s + length refs"
    and "heap s' = heap s" and "m_face s' = m_face s"
proof -
  from express_all_prefix[OF assms] obtain k where k: "k \<le> length refs"
     "s' = s\<lparr>pit := pit s @ map (issue (heap s) c) (take k refs),
               trace := trace s @ map (express_action \<circ> issue (heap s) c) (take k refs)\<rparr>"
    by blast
  show "fired c' s' = fired c' s" using k(2) by (simp add: fired_def count_list_map_express)
  have "length (filter (\<lambda>e. pi_onFailure e = c') (map (issue (heap s) c) (take k refs))) \<le> k"
    using k(1) by (metis length_filter_le length_map length_take min.absorb2)
  then show "awaiting c' s' \<le> awaiting c' s + length refs"
    using k by (simp add: awaiting_def)
  show "heap s' = heap s" "m_face s' = m_face s" using k(2) by simp_all
qed

lemma validate_overloads:
  "validate_interest P interest v f n s = validate P (Subject_Interest interest) v f n s"
  "validate_data P data v f n s = validate P (Subject_Data data) v f n s"
  by (simp_all add: validate_interest_def validate_data_def)

lemma validate_unfold:
  "P subj n v f (heap s) = (refs, h) \<Longrightarrow>
     validate P subj v f n s =
       (if refs \<noteq> [] then
          if \<not> m_face s then
            (Thrown_Face_not_set, s\<lparr>heap := h, trace := trace s @ [CheckPolicy subj n v f]\<rparr>)
          else express_all (Bind_failed f subj) refs
                 (s\<lparr>heap := h, trace := trace s @ [CheckPolicy subj n v f]\<rparr>)
        else (Returned, s\<lparr>heap := h, trace := trace s @ [CheckPolicy subj n v f]\<rparr>))"
  by (simp add: validate_def Let_def)

subsection \<open>Invocations and pending fetches of one failure continuation\<close>





subsection \<open>The example worlds\<close>

lemma one_fetch_eq:
  "one_fetch =
     \<lparr>m_face = True, pit = [fetch_A],
      heap = [0 \<mapsto> request_for [[99], [65]] 10 11 2 1],
      trace = [CheckPolicy (Subject_Data signed_data) 0 1 2, express_action fetch_A]\<rparr>"
  by (simp add: one_fetch_def validate_data_def validate_def chain_policy_def idle_def
        expressInterest_def request_for_def fetch_A_def fetch_entry_def express_action_def)

lemma examples_differ:
  "signed_data \<noteq> certificate_A" "digest_data \<noteq> signed_data" "digest_data \<noteq> certificate_A"
  by (simp_all add: signed_data_def certificate_A_def digest_data_def signature_of_kind_def)

subsection \<open>Claim C1: how often a failure continuation is invoked\<close>








subsection \<open>Claim C2: retries\<close>

lemma fire_timeout_retry:
  assumes "m_face t" "i < length (pit t)" "pit t ! i = fetch_entry I ns c r" "0 < r"
  shows "fire P (Times_out i) t =
           (Returned, t\<lparr>pit := remove_nth i (pit t) @ [fetch_entry I ns c (r - 1)],
                        trace := trace t @ [ExpressInterest I (OnData_bound ns) (OnTimeout_bound (r - 1) c ns)]\<rparr>)"
  using assms by (simp add: fetch_entry_def onTimeout_def expressInterest_def)

lemma fire_timeout_exhausted:
  assumes "i < length (pit t)" "pit t ! i = fetch_entry I ns c r" "r \<le> 0"
  shows "fire P (Times_out i) t =
           (Returned, t\<lparr>pit := remove_nth i (pit t), trace := trace t @ [Invoke c]\<rparr>)"
  using assms by (simp add: fetch_entry_def onTimeout_def)

lemma remove_nth_last: "remove_nth (length xs) (xs @ [x]) = xs"
  by (simp add: remove_nth_def)

lemma reissues_Suc:
  "reissues I ns c r (Suc k) =
     ExpressInterest I (OnData_bound ns) (OnTimeout_bound (r - 1) c ns) # reissues I ns c (r - 1) k"
proof -
  have "[0..<Suc k] = 0 # map Suc [0..<k]" by (simp add: upt_conv_Cons map_Suc_upt del: upt_Suc)
  then show ?thesis by (simp add: reissues_def comp_def algebra_simps del: upt_Suc)
qed

lemma timeout_chain:
  "m_face t \<Longrightarrow> pit t = rest @ [fetch_entry I ns c r] \<Longrightarrow> int k \<le> r \<Longrightarrow>
     run P (replicate k (Times_out (length rest))) t =
       (Returned, t\<lparr>pit := rest @ [fetch_entry I ns c (r - int k)],
                    trace := trace t @ reissues I ns c r k\<rparr>)"
proof (induction k arbitrary: t r)
  case 0
  then show ?case by (simp add: reissues_def)
next
  case (Suc k)
  let ?t1 = "t\<lparr>pit := rest @ [fetch_entry I ns c (r - 1)],
               trace := trace t @ [ExpressInterest I (OnData_bound ns) (OnTimeout_bound (r - 1) c ns)]\<rparr>"
  have i: "length rest < length (pit t)" and e: "pit t ! length rest = fetch_entry I ns c r"
    using Suc.prems(2) by simp_all
  have pos: "0 < r" using Suc.prems(3) by simp
  have f: "fire P (Times_out (length rest)) t = (Returned, ?t1)"
    using fire_timeout_retry[OF Suc.prems(1) i e pos, of P] Suc.prems(2) by (simp add: remove_nth_last)
  have "run P (replicate k (Times_out (length rest))) ?t1 =
          (Returned, ?t1\<lparr>pit := rest @ [fetch_entry I ns c (r - 1 - int k)],
                         trace := trace ?t1 @ reissues I ns c (r - 1) k\<rparr>)"
    by (rule Suc.IH) (use Suc.prems in simp_all)
  then show ?case using f by (simp add: reissues_Suc algebra_simps)
qed

lemma run_append:
  "run P xs s = (Returned, s1) \<Longrightarrow> run P (xs @ ys) s = run P ys s1"
  by (induction xs arbitrary: s) (auto split: prod.splits outcome.splits)

lemma first_timeouts:
  assumes "m_face s" "i < length (pit s)" "pit s ! i = fetch_entry I ns c R" "0 < k" "int k \<le> R"
  shows "run P (timeouts_of s i k) s =
           (Returned, s\<lparr>pit := remove_nth i (pit s) @ [fetch_entry I ns c (R - int k)],
                        trace := trace s @ reissues I ns c R k\<rparr>)"
proof -
  obtain k' where k: "k = Suc k'" using assms(4) by (cases k) auto
  let ?rest = "remove_nth i (pit s)"
  let ?s1 = "s\<lparr>pit := ?rest @ [fetch_entry I ns c (R - 1)],
               trace := trace s @ [ExpressInterest I (OnData_bound ns) (OnTimeout_bound (R - 1) c ns)]\<rparr>"
  have len: "length ?rest = length (pit s) - 1" using assms(2) by (simp add: remove_nth_def)
  have pos: "0 < R" using assms(4,5) by simp
  have f: "fire P (Times_out i) s = (Returned, ?s1)"
    by (rule fire_timeout_retry[OF assms(1,2,3) pos])
  have "run P (replicate k' (Times_out (length ?rest))) ?s1 =
          (Returned, ?s1\<lparr>pit := ?rest @ [fetch_entry I ns c (R - 1 - int k')],
                         trace := trace ?s1 @ reissues I ns c (R - 1) k'\<rparr>)"
    by (rule timeout_chain) (use assms k in simp_all)
  then show ?thesis using f k len by (simp add: timeouts_of_def reissues_Suc algebra_simps)
qed

lemma timeouts_of_Suc:
  "0 < k \<Longrightarrow> timeouts_of s i (Suc k) = timeouts_of s i k @ [Times_out (length (pit s) - 1)]"
  by (cases k) (simp_all add: timeouts_of_def replicate_append_same)

lemma all_timeouts:
  assumes "m_face s" "i < length (pit s)" "pit s ! i = fetch_entry I ns c R"
  shows "run P (timeouts_of s i (Suc (nat R))) s =
           (Returned, s\<lparr>pit := remove_nth i (pit s),
                        trace := trace s @ reissues I ns c R (nat R) @ [Invoke c]\<rparr>)"
proof (cases "0 < R")
  case False
  then have "nat R = 0" by simp
  then show ?thesis
    using fire_timeout_exhausted[OF assms(2,3), of P] False
    by (simp add: timeouts_of_def reissues_def)
next
  case True
  let ?rest = "remove_nth i (pit s)"
  let ?s1 = "s\<lparr>pit := ?rest @ [fetch_entry I ns c (R - int (nat R))],
               trace := trace s @ reissues I ns c R (nat R)\<rparr>"
  have len: "length ?rest = length (pit s) - 1" using assms(2) by (simp add: remove_nth_def)
  have 1: "run P (timeouts_of s i (nat R)) s = (Returned, ?s1)"
    by (rule first_timeouts[OF assms]) (use True in simp_all)
  have 2: "fire P (Times_out (length ?rest)) ?s1 =
             (Returned, ?s1\<lparr>pit := remove_nth (length ?rest) (pit ?s1), trace := trace ?s1 @ [Invoke c]\<rparr>)"
    by (rule fire_timeout_exhausted[where I = I and ns = ns and r = "R - int (nat R)"]) (use True in simp_all)
  have "run P (timeouts_of s i (Suc (nat R))) s = run P [Times_out (length ?rest)] ?s1"
    using run_append[OF 1, of "[Times_out (length ?rest)]"] True by (simp add: timeouts_of_Suc len)
  then show ?thesis using 2 by (simp add: remove_nth_last)
qed

lemma data_arrival_issues:
  assumes "i < length (pit s)" "pi_onData (pit s ! i) = OnData_bound ns" "heap s ns = Some r"
    and "P (Subject_Data d) (m_stepCount r) (m_onValidated r) (m_onDataValidated r) (heap s) = (refs, h)"
  shows "\<exists>k \<le> length refs.
           snd (fire P (Data_arrives i d) s) =
             s\<lparr>pit := remove_nth i (pit s)
                    @ map (issue h (Bind_failed (m_onDataValidated r) (Subject_Data d))) (take k refs),
               heap := h,
               trace := trace s
                    @ CheckPolicy (Subject_Data d) (m_stepCount r) (m_onValidated r) (m_onDataValidated r)
                    # map (express_action \<circ> issue h (Bind_failed (m_onDataValidated r) (Subject_Data d)))
                        (take k refs)\<rparr>"
proof -
  let ?s0 = "s\<lparr>pit := remove_nth i (pit s)\<rparr>"
  let ?cp = "CheckPolicy (Subject_Data d) (m_stepCount r) (m_onValidated r) (m_onDataValidated r)"
  let ?c = "Bind_failed (m_onDataValidated r) (Subject_Data d)"
  let ?s1 = "?s0\<lparr>heap := h, trace := trace ?s0 @ [?cp]\<rparr>"
  have p: "P (Subject_Data d) (m_stepCount r) (m_onValidated r) (m_onDataValidated r) (heap ?s0) = (refs, h)"
    using assms(4) by simp
  note u = validate_unfold[of P "Subject_Data d" "m_stepCount r" "m_onValidated r"
             "m_onDataValidated r" ?s0 refs h, OF p]
  have f: "fire P (Data_arrives i d) s =
             validate P (Subject_Data d) (m_onValidated r) (m_onDataValidated r) (m_stepCount r) ?s0"
    using assms(1,2,3) by (simp add: onData_def validate_data_def)
  show ?thesis
  proof (cases "refs \<noteq> [] \<and> m_face s")
    case False
    then have "snd (fire P (Data_arrives i d) s) = ?s1" unfolding f by (auto simp: u)
    then show ?thesis by (intro exI[of _ 0]) simp
  next
    case True
    obtain out s' where e: "express_all ?c refs ?s1 = (out, s')" by (cases "express_all ?c refs ?s1")
    from express_all_prefix[OF e] obtain k where k: "k \<le> length refs"
      "s' = ?s1\<lparr>pit := pit ?s1 @ map (issue (heap ?s1) ?c) (take k refs),
               trace := trace ?s1 @ map (express_action \<circ> issue (heap ?s1) ?c) (take k refs)\<rparr>"
      by blast
    have "snd (fire P (Data_arrives i d) s) = s'" unfolding f using True e by (simp add: u)
    then show ?thesis using k by (intro exI[of _ k]) simp
  qed
qed

text \<open>
  C2: a fetch issued for a request with retry count \<open>R\<close> is reissued on each of its
  first \<open>R\<close> timeouts, with the same interest, the same data callback and the same
  timeout callback but for the retry count, which goes down by one; after \<open>k\<close> such
  timeouts the trace has grown by exactly those \<open>k\<close> \<open>expressInterest\<close> calls and no
  failure continuation has been invoked. On the timeout after that, the \<open>(R+1)\<close>-th,
  the failure continuation is invoked and nothing is left pending for the request (with
  \<open>R = 0\<close> that is the first timeout; a negative \<open>R\<close> behaves as \<open>0\<close>). When the
  data arrives instead, the fetch leaves the table and is not reissued: the only fetches
  issued are those that the loop of \<open>validate\<close> makes for the requests \<open>checkPolicy\<close>
  returned for the fetched object, each with its own stored retry count, and none at all
  when \<open>checkPolicy\<close> accepts or rejects.
\<close>

theorem retry_schedule:
  assumes "m_face s" and "i < length (pit s)" and "pit s ! i = fetch_entry I ns c R"
  shows "(\<forall>k. 0 < k \<and> int k \<le> R \<longrightarrow>
            run P (timeouts_of s i k) s =
              (Returned, s\<lparr>pit := remove_nth i (pit s) @ [fetch_entry I ns c (R - int k)],
                           trace := trace s @ reissues I ns c R k\<rparr>))
       \<and> run P (timeouts_of s i (Suc (nat R))) s =
              (Returned, s\<lparr>pit := remove_nth i (pit s),
                           trace := trace s @ reissues I ns c R (nat R) @ [Invoke c]\<rparr>)
       \<and> (\<forall>d r refs h. heap s ns = Some r
              \<and> P (Subject_Data d) (m_stepCount r) (m_onValidated r) (m_onDataValidated r) (heap s)
                  = (refs, h) \<longrightarrow>
            (\<exists>k \<le> length refs.
               snd (fire P (Data_arrives i d) s) =
                 s\<lparr>pit := remove_nth i (pit s)
                        @ map (issue h (Bind_failed (m_onDataValidated r) (Subject_Data d)))
                            (take k refs),
                   heap := h,
                   trace := trace s
                        @ CheckPolicy (Subject_Data d) (m_stepCount r) (m_onValidated r)
                            (m_onDataValidated r)
                        # map (express_action
                                 \<circ> issue h (Bind_failed (m_onDataValidated r) (Subject_Data d)))
                            (take k refs)\<rparr>))"
proof (intro conjI allI impI)
  fix k assume "0 < k \<and> int k \<le> R"
  then show "run P (timeouts_of s i k) s =
              (Returned, s\<lparr>pit := remove_nth i (pit s) @ [fetch_entry I ns c (R - int k)],
                           trace := trace s @ reissues I ns c R k\<rparr>)"
    using first_timeouts[OF assms] by blast
next
  show "run P (timeouts_of s i (Suc (nat R))) s =
              (Returned, s\<lparr>pit := remove_nth i (pit s),
                           trace := trace s @ reissues I ns c R (nat R) @ [Invoke c]\<rparr>)"
    by (rule all_timeouts[OF assms])
next
  fix d r refs h
  assume a: "heap s ns = Some r
              \<and> P (Subject_Data d) (m_stepCount r) (m_onValidated r) (m_onDataValidated r) (heap s)
                  = (refs, h)"
  have od: "pi_onData (pit s ! i) = OnData_bound ns" using assms(3) by (simp add: fetch_entry_def)
  from a have 1: "heap s ns = Some r"
    and 2: "P (Subject_Data d) (m_stepCount r) (m_onValidated r) (m_onDataValidated r) (heap s)
              = (refs, h)" by simp_all
  show "\<exists>k \<le> length refs.
               snd (fire P (Data_arrives i d) s) =
                 s\<lparr>pit := remove_nth i (pit s)
                        @ map (issue h (Bind_failed (m_onDataValidated r) (Subject_Data d)))
                            (take k refs),
                   heap := h,
                   trace := trace s
                        @ CheckPolicy (Subject_Data d) (m_stepCount r) (m_onValidated r)
                            (m_onDataValidated r)
                        # map (express_action
                                 \<circ> issue h (Bind_failed (m_onDataValidated r) (Subject_Data d)))
                            (take k refs)\<rparr>"
    by (rule data_arrival_issues[of i s ns r P d refs h, OF assms(2) od 1 2])
qed

theorem retry_schedule_witness:
  "m_face one_fetch \<and> 0 < length (pit one_fetch)
   \<and> pit one_fetch ! 0
       = fetch_entry \<lparr>interest_name = [[99], [65]]\<rparr> 0 (Bind_failed 2 (Subject_Data signed_data)) 2
   \<and> run chain_policy (timeouts_of one_fetch 0 2) one_fetch =
        (Returned,
         one_fetch\<lparr>pit := [fetch_entry \<lparr>interest_name = [[99], [65]]\<rparr> 0
                               (Bind_failed 2 (Subject_Data signed_data)) 0],
                   trace := trace one_fetch
                     @ reissues \<lparr>interest_name = [[99], [65]]\<rparr> 0
                         (Bind_failed 2 (Subject_Data signed_data)) 2 2\<rparr>)
   \<and> run chain_policy (timeouts_of one_fetch 0 3) one_fetch =
        (Returned,
         one_fetch\<lparr>pit := [],
                   trace := trace one_fetch
                     @ reissues \<lparr>interest_name = [[99], [65]]\<rparr> 0
                         (Bind_failed 2 (Subject_Data signed_data)) 2 2
                     @ [Invoke (Bind_failed 2 (Subject_Data signed_data))]\<rparr>)
   \<and> snd (fire chain_policy (Data_arrives 0 digest_data) one_fetch) =
        one_fetch\<lparr>pit := [], heap := heap one_fetch,
                  trace := trace one_fetch @ [CheckPolicy (Subject_Data digest_data) 1 10 11]\<rparr>"
proof -
  let ?I = "\<lparr>interest_name = [[99], [65]]\<rparr>" and ?c = "Bind_failed 2 (Subject_Data signed_data)"
  let ?r = "request_for [[99], [65]] 10 11 2 1"
  have h1: "m_face one_fetch" and h2: "0 < length (pit one_fetch)"
    and h3: "pit one_fetch ! 0 = fetch_entry ?I 0 ?c 2"
    by (simp_all add: one_fetch_eq fetch_A_def)
  have h4: "heap one_fetch 0 = Some ?r"
    by (simp add: one_fetch_eq)
  have h5: "chain_policy (Subject_Data digest_data) (m_stepCount ?r) (m_onValidated ?r)
              (m_onDataValidated ?r) (heap one_fetch) = ([], heap one_fetch)"
    using examples_differ by (simp add: chain_policy_def)
  have r: "remove_nth 0 (pit one_fetch) = []" by (simp add: one_fetch_eq remove_nth_def)
  note t = retry_schedule[OF h1 h2 h3, of chain_policy]
  have a: "run chain_policy (timeouts_of one_fetch 0 2) one_fetch =
        (Returned, one_fetch\<lparr>pit := remove_nth 0 (pit one_fetch) @ [fetch_entry ?I 0 ?c (2 - int 2)],
                             trace := trace one_fetch @ reissues ?I 0 ?c 2 2\<rparr>)"
    using t by simp
  have b: "run chain_policy (timeouts_of one_fetch 0 (Suc (nat 2))) one_fetch =
        (Returned, one_fetch\<lparr>pit := remove_nth 0 (pit one_fetch),
                             trace := trace one_fetch @ reissues ?I 0 ?c 2 (nat 2) @ [Invoke ?c]\<rparr>)"
    using t by blast
  have "\<exists>k \<le> length ([] :: ref list).
          snd (fire chain_policy (Data_arrives 0 digest_data) one_fetch) =
            one_fetch\<lparr>pit := remove_nth 0 (pit one_fetch)
                   @ map (issue (heap one_fetch) (Bind_failed (m_onDataValidated ?r) (Subject_Data digest_data)))
                       (take k []),
              heap := heap one_fetch,
              trace := trace one_fetch
                   @ CheckPolicy (Subject_Data digest_data) (m_stepCount ?r) (m_onValidated ?r)
                       (m_onDataValidated ?r)
                   # map (express_action
                            \<circ> issue (heap one_fetch) (Bind_failed (m_onDataValidated ?r) (Subject_Data digest_data)))
                       (take k [])\<rparr>"
    using t h4 h5 by blast
  then have c: "snd (fire chain_policy (Data_arrives 0 digest_data) one_fetch) =
        one_fetch\<lparr>pit := remove_nth 0 (pit one_fetch), heap := heap one_fetch,
            trace := trace one_fetch @ [CheckPolicy (Subject_Data digest_data)
               (m_stepCount ?r) (m_onValidated ?r) (m_onDataValidated ?r)]\<rparr>"
    by (simp del: fire.simps)
  have n3: "Suc (nat 2) = 3" by simp
  show ?thesis using h1 h2 h3 a b c unfolding r n3 by (simp add: request_for_def del: fire.simps)
qed

subsection \<open>Claim C3: which failure continuation a timeout invokes\<close>

text \<open>
  C3 as written: the failure continuation invoked on exhaustion is bound to the original
  top-level subject at every depth of the chain. \<open>validate\<close> binds \<open>onFailure\<close> to
  its own subject, and \<open>onData\<close> calls \<open>validate\<close> on the fetched object with the
  request's stored continuations; so a fetch issued while certificate A is validated
  invokes, on exhaustion, the stored continuation of the request for A, bound to
  certificate A and not to \<open>signed_data\<close>, whose own continuation is never invoked.
\<close>

theorem nested_failure_bound_to_certificate:
  "filter (\<lambda>a. case a of Invoke c \<Rightarrow> True | _ \<Rightarrow> False)
     (trace (snd (run chain_policy [Data_arrives 0 certificate_A, Times_out 0]
                    (snd (validate_data chain_policy signed_data 1 2 0 (idle True))))))
     = [Invoke (Bind_failed 11 (Subject_Data certificate_A))]
   \<and> Subject_Data certificate_A \<noteq> Subject_Data signed_data"
  using examples_differ(1)
  by (simp add: validate_data_def validate_def chain_policy_def idle_def expressInterest_def
        onTimeout_def onData_def remove_nth_def request_for_def)

lemma fire_timeout_step:
  assumes "i < length (pit s)" and "pi_onTimeout (pit s ! i) = OnTimeout_bound retry c ns"
  shows "retry \<le> 0 \<Longrightarrow>
           fire P (Times_out i) s =
             (Returned, s\<lparr>pit := remove_nth i (pit s), trace := trace s @ [Invoke c]\<rparr>)"
    and "0 < retry \<Longrightarrow> m_face s \<Longrightarrow>
           fire P (Times_out i) s =
             (Returned,
              s\<lparr>pit := remove_nth i (pit s)
                     @ [fetch_entry (pi_interest (pit s ! i)) ns c (retry - 1)],
                trace := trace s
                     @ [ExpressInterest (pi_interest (pit s ! i)) (OnData_bound ns)
                          (OnTimeout_bound (retry - 1) c ns)]\<rparr>)"
  using assms by (simp_all add: onTimeout_def expressInterest_def fetch_entry_def)

lemma express_all_complete:
  assumes "\<forall>it \<in> set refs. heap s it \<noteq> None"
  shows "express_all c refs s =
           (Returned, s\<lparr>pit := pit s @ map (issue (heap s) c) refs,
                        trace := trace s @ map (express_action \<circ> issue (heap s) c) refs\<rparr>)"
proof -
  obtain out s' where e: "express_all c refs s = (out, s')" by (cases "express_all c refs s")
  from express_all_prefix[OF e] obtain k where k: "k \<le> length refs"
      "s' = s\<lparr>pit := pit s @ map (issue (heap s) c) (take k refs),
               trace := trace s @ map (express_action \<circ> issue (heap s) c) (take k refs)\<rparr>"
      "out = Returned \<longrightarrow> k = length refs"
      "out \<noteq> Returned \<longrightarrow> out = Null_dereference \<and> k < length refs \<and> heap s (refs ! k) = None"
    by blast
  have "out = Returned"
  proof (rule ccontr)
    assume "out \<noteq> Returned"
    then have "k < length refs" "heap s (refs ! k) = None" using k(4) by simp_all
    then show False using assms nth_mem by blast
  qed
  then show ?thesis using e k(2,3) by simp
qed

lemma validate_registers:
  assumes "m_face s" and "P subj n v f (heap s) = (refs, h)" and "\<forall>it \<in> set refs. h it \<noteq> None"
  shows "validate P subj v f n s =
           (Returned,
            s\<lparr>pit := pit s @ map (issue h (Bind_failed f subj)) refs,
              heap := h,
              trace := trace s @ CheckPolicy subj n v f
                         # map (express_action \<circ> issue h (Bind_failed f subj)) refs\<rparr>)"
proof -
  let ?s1 = "s\<lparr>heap := h, trace := trace s @ [CheckPolicy subj n v f]\<rparr>"
  note u = validate_unfold[of P subj n v f s refs h, OF assms(2)]
  have e: "express_all (Bind_failed f subj) refs ?s1 =
           (Returned, ?s1\<lparr>pit := pit ?s1 @ map (issue (heap ?s1) (Bind_failed f subj)) refs,
                          trace := trace ?s1
                            @ map (express_action \<circ> issue (heap ?s1) (Bind_failed f subj)) refs\<rparr>)"
    by (rule express_all_complete) (use assms(3) in simp)
  show ?thesis
  proof (cases "refs = []")
    case True
    then show ?thesis by (simp add: u)
  next
    case False
    then show ?thesis using assms(1) e by (simp add: u)
  qed
qed

lemma issued_request_exhausts:
  assumes "m_face s" and "P subj n v f (heap s) = (refs, h)" and "\<forall>it \<in> set refs. h it \<noteq> None"
    and "j < length refs" and "h (refs ! j) = Some rj"
  shows "run P (timeouts_of (snd (validate P subj v f n s)) (length (pit s) + j) (Suc (nat (m_retry rj))))
             (snd (validate P subj v f n s)) =
           (Returned,
            (snd (validate P subj v f n s))
              \<lparr>pit := remove_nth (length (pit s) + j) (pit (snd (validate P subj v f n s))),
                trace := trace (snd (validate P subj v f n s))
                  @ reissues (m_interest rj) (refs ! j) (Bind_failed f subj) (m_retry rj)
                      (nat (m_retry rj))
                  @ [Invoke (Bind_failed f subj)]\<rparr>)"
proof -
  let ?s' = "snd (validate P subj v f n s)"
  note v = validate_registers[of s P subj n v f refs h, OF assms(1,2,3)]
  have face: "m_face ?s'" using v assms(1) by simp
  have len: "length (pit s) + j < length (pit ?s')" using v assms(4) by simp
  have "pit ?s' ! (length (pit s) + j) = issue h (Bind_failed f subj) (refs ! j)"
    using v assms(4) by (simp add: nth_append)
  then have ent: "pit ?s' ! (length (pit s) + j)
                    = fetch_entry (m_interest rj) (refs ! j) (Bind_failed f subj) (m_retry rj)"
    using assms(5) by (simp add: issue_def)
  show ?thesis by (rule all_timeouts[OF face len ent])
qed

text \<open>
  C3 as amended: the failure continuation invoked on exhaustion is the one handed to the
  \<open>validate\<close> call that issued the fetch, bound to the subject of that call. In any
  world, a timeout of a fetch with no retry left invokes exactly the continuation bound
  into that fetch, and a timeout with retries left registers the fetch again with the same
  continuation. The fetches that a \<open>validate\<close> call registers all carry the failure
  continuation of that call bound to its subject, and each of them invokes it when it has
  timed out once more than its retry count. The fetches registered when data arrives for
  a request all carry the stored failure continuation of that request bound to the
  fetched object, and each of them invokes that one, at whatever depth the arrival is.
\<close>

theorem exhaustion_invokes_issuing_call:
  "(i < length (pit s) \<and> pi_onTimeout (pit s ! i) = OnTimeout_bound retry c ns \<longrightarrow>
      (retry \<le> 0 \<longrightarrow>
         fire checkPolicy (Times_out i) s =
           (Returned, s\<lparr>pit := remove_nth i (pit s), trace := trace s @ [Invoke c]\<rparr>))
    \<and> (0 < retry \<and> m_face s \<longrightarrow>
         fire checkPolicy (Times_out i) s =
           (Returned,
            s\<lparr>pit := remove_nth i (pit s)
                   @ [fetch_entry (pi_interest (pit s ! i)) ns c (retry - 1)],
              trace := trace s
                   @ [ExpressInterest (pi_interest (pit s ! i)) (OnData_bound ns)
                        (OnTimeout_bound (retry - 1) c ns)]\<rparr>)))
   \<and> (m_face s \<and> checkPolicy subj n v f (heap s) = (refs, h)
        \<and> (\<forall>it \<in> set refs. h it \<noteq> None) \<and> j < length refs \<and> h (refs ! j) = Some rj \<longrightarrow>
      pit (snd (validate checkPolicy subj v f n s))
        = pit s @ map (issue h (Bind_failed f subj)) refs
    \<and> run checkPolicy
          (timeouts_of (snd (validate checkPolicy subj v f n s)) (length (pit s) + j)
             (Suc (nat (m_retry rj))))
          (snd (validate checkPolicy subj v f n s)) =
        (Returned,
         (snd (validate checkPolicy subj v f n s))
           \<lparr>pit := remove_nth (length (pit s) + j) (pit (snd (validate checkPolicy subj v f n s))),
             trace := trace (snd (validate checkPolicy subj v f n s))
               @ reissues (m_interest rj) (refs ! j) (Bind_failed f subj) (m_retry rj)
                   (nat (m_retry rj))
               @ [Invoke (Bind_failed f subj)]\<rparr>))
   \<and> (m_face s \<and> i < length (pit s) \<and> pi_onData (pit s ! i) = OnData_bound nextStep
        \<and> heap s nextStep = Some r
        \<and> checkPolicy (Subject_Data d) (m_stepCount r) (m_onValidated r) (m_onDataValidated r)
            (heap s) = (refs, h)
        \<and> (\<forall>it \<in> set refs. h it \<noteq> None) \<and> j < length refs \<and> h (refs ! j) = Some rj \<longrightarrow>
      pit (snd (fire checkPolicy (Data_arrives i d) s))
        = remove_nth i (pit s)
          @ map (issue h (Bind_failed (m_onDataValidated r) (Subject_Data d))) refs
    \<and> run checkPolicy
          (timeouts_of (snd (fire checkPolicy (Data_arrives i d) s)) (length (pit s) - 1 + j)
             (Suc (nat (m_retry rj))))
          (snd (fire checkPolicy (Data_arrives i d) s)) =
        (Returned,
         (snd (fire checkPolicy (Data_arrives i d) s))
           \<lparr>pit := remove_nth (length (pit s) - 1 + j)
                     (pit (snd (fire checkPolicy (Data_arrives i d) s))),
             trace := trace (snd (fire checkPolicy (Data_arrives i d) s))
               @ reissues (m_interest rj) (refs ! j)
                   (Bind_failed (m_onDataValidated r) (Subject_Data d)) (m_retry rj)
                   (nat (m_retry rj))
               @ [Invoke (Bind_failed (m_onDataValidated r) (Subject_Data d))]\<rparr>))"
proof (intro conjI impI)
  assume a: "i < length (pit s) \<and> pi_onTimeout (pit s ! i) = OnTimeout_bound retry c ns"
  show "fire checkPolicy (Times_out i) s =
           (Returned, s\<lparr>pit := remove_nth i (pit s), trace := trace s @ [Invoke c]\<rparr>)"
    if "retry \<le> 0"
    using a that fire_timeout_step(1)[of i s retry c ns checkPolicy] by blast
  show "fire checkPolicy (Times_out i) s =
           (Returned,
            s\<lparr>pit := remove_nth i (pit s)
                   @ [fetch_entry (pi_interest (pit s ! i)) ns c (retry - 1)],
              trace := trace s
                   @ [ExpressInterest (pi_interest (pit s ! i)) (OnData_bound ns)
                        (OnTimeout_bound (retry - 1) c ns)]\<rparr>)"
    if "0 < retry \<and> m_face s"
    using a that fire_timeout_step(2)[of i s retry c ns checkPolicy] by blast
next
  assume a: "m_face s \<and> checkPolicy subj n v f (heap s) = (refs, h)
        \<and> (\<forall>it \<in> set refs. h it \<noteq> None) \<and> j < length refs \<and> h (refs ! j) = Some rj"
  then have 1: "m_face s" and 2: "checkPolicy subj n v f (heap s) = (refs, h)"
    and 3: "\<forall>it \<in> set refs. h it \<noteq> None" and 4: "j < length refs" and 5: "h (refs ! j) = Some rj"
    by simp_all
  show "pit (snd (validate checkPolicy subj v f n s))
        = pit s @ map (issue h (Bind_failed f subj)) refs"
    using validate_registers[of s checkPolicy subj n v f refs h, OF 1 2 3] by simp
  show "run checkPolicy
          (timeouts_of (snd (validate checkPolicy subj v f n s)) (length (pit s) + j)
             (Suc (nat (m_retry rj))))
          (snd (validate checkPolicy subj v f n s)) =
        (Returned,
         (snd (validate checkPolicy subj v f n s))
           \<lparr>pit := remove_nth (length (pit s) + j) (pit (snd (validate checkPolicy subj v f n s))),
             trace := trace (snd (validate checkPolicy subj v f n s))
               @ reissues (m_interest rj) (refs ! j) (Bind_failed f subj) (m_retry rj)
                   (nat (m_retry rj))
               @ [Invoke (Bind_failed f subj)]\<rparr>)"
    by (rule issued_request_exhausts[of s checkPolicy subj n v f refs h j rj, OF 1 2 3 4 5])
next
  assume a: "m_face s \<and> i < length (pit s) \<and> pi_onData (pit s ! i) = OnData_bound nextStep
        \<and> heap s nextStep = Some r
        \<and> checkPolicy (Subject_Data d) (m_stepCount r) (m_onValidated r) (m_onDataValidated r)
            (heap s) = (refs, h)
        \<and> (\<forall>it \<in> set refs. h it \<noteq> None) \<and> j < length refs \<and> h (refs ! j) = Some rj"
  let ?s0 = "s\<lparr>pit := remove_nth i (pit s)\<rparr>"
  from a have i: "i < length (pit s)" and od: "pi_onData (pit s ! i) = OnData_bound nextStep"
    and hr: "heap s nextStep = Some r" by simp_all
  from a have 1: "m_face ?s0"
    and 2: "checkPolicy (Subject_Data d) (m_stepCount r) (m_onValidated r) (m_onDataValidated r)
              (heap ?s0) = (refs, h)"
    and 3: "\<forall>it \<in> set refs. h it \<noteq> None" and 4: "j < length refs" and 5: "h (refs ! j) = Some rj"
    by simp_all
  have f: "fire checkPolicy (Data_arrives i d) s =
             validate checkPolicy (Subject_Data d) (m_onValidated r) (m_onDataValidated r)
               (m_stepCount r) ?s0"
    using i od hr by (simp add: onData_def validate_data_def)
  have len: "length (pit ?s0) = length (pit s) - 1" using i by (simp add: remove_nth_def)
  show "pit (snd (fire checkPolicy (Data_arrives i d) s))
        = remove_nth i (pit s)
          @ map (issue h (Bind_failed (m_onDataValidated r) (Subject_Data d))) refs"
    unfolding f
    using validate_registers[of ?s0 checkPolicy "Subject_Data d" "m_stepCount r" "m_onValidated r"
            "m_onDataValidated r" refs h, OF 1 2 3] by simp
  show "run checkPolicy
          (timeouts_of (snd (fire checkPolicy (Data_arrives i d) s)) (length (pit s) - 1 + j)
             (Suc (nat (m_retry rj))))
          (snd (fire checkPolicy (Data_arrives i d) s)) =
        (Returned,
         (snd (fire checkPolicy (Data_arrives i d) s))
           \<lparr>pit := remove_nth (length (pit s) - 1 + j)
                     (pit (snd (fire checkPolicy (Data_arrives i d) s))),
             trace := trace (snd (fire checkPolicy (Data_arrives i d) s))
               @ reissues (m_interest rj) (refs ! j)
                   (Bind_failed (m_onDataValidated r) (Subject_Data d)) (m_retry rj)
                   (nat (m_retry rj))
               @ [Invoke (Bind_failed (m_onDataValidated r) (Subject_Data d))]\<rparr>)"
    unfolding f
    using issued_request_exhausts[of ?s0 checkPolicy "Subject_Data d" "m_stepCount r"
            "m_onValidated r" "m_onDataValidated r" refs h j rj, OF 1 2 3 4 5]
    unfolding len .
qed

theorem exhaustion_invokes_issuing_call_witness:
  "m_face one_fetch \<and> 0 < length (pit one_fetch)
   \<and> pi_onData (pit one_fetch ! 0) = OnData_bound 0
   \<and> heap one_fetch 0 = Some (request_for [[99], [65]] 10 11 2 1)
   \<and> chain_policy (Subject_Data certificate_A) 1 10 11 (heap one_fetch)
       = ([1], (heap one_fetch)(1 \<mapsto> request_for [[99], [66]] 20 21 0 2))
   \<and> ((heap one_fetch)(1 \<mapsto> request_for [[99], [66]] 20 21 0 2)) 1
       = Some (request_for [[99], [66]] 20 21 0 2)
   \<and> pit (snd (fire chain_policy (Data_arrives 0 certificate_A) one_fetch))
       = [fetch_entry \<lparr>interest_name = [[99], [66]]\<rparr> 1
            (Bind_failed 11 (Subject_Data certificate_A)) 0]
   \<and> run chain_policy [Times_out 0] (snd (fire chain_policy (Data_arrives 0 certificate_A) one_fetch))
       = (Returned,
          (snd (fire chain_policy (Data_arrives 0 certificate_A) one_fetch))
            \<lparr>pit := [],
              trace := trace (snd (fire chain_policy (Data_arrives 0 certificate_A) one_fetch))
                @ [Invoke (Bind_failed 11 (Subject_Data certificate_A))]\<rparr>)"
proof -
  let ?r = "request_for [[99], [65]] 10 11 2 1" and ?rj = "request_for [[99], [66]] 20 21 0 2"
  let ?h = "(heap one_fetch)(1 \<mapsto> ?rj)"
  let ?s' = "snd (fire chain_policy (Data_arrives 0 certificate_A) one_fetch)"
  have h1: "m_face one_fetch" and h2: "0 < length (pit one_fetch)"
    and h3: "pi_onData (pit one_fetch ! 0) = OnData_bound 0"
    and h4: "heap one_fetch 0 = Some ?r"
    by (simp_all add: one_fetch_eq fetch_A_def fetch_entry_def)
  have h5: "chain_policy (Subject_Data certificate_A) 1 10 11 (heap one_fetch) = ([1], ?h)"
    using examples_differ by (simp add: chain_policy_def)
  have h5': "chain_policy (Subject_Data certificate_A) (m_stepCount ?r) (m_onValidated ?r)
               (m_onDataValidated ?r) (heap one_fetch) = ([1], ?h)"
    using h5 by (simp add: request_for_def)
  have h6: "\<forall>it \<in> set [1 :: ref]. ?h it \<noteq> None" by simp
  have h7: "(0 :: nat) < length [1 :: ref]" and h8: "?h ([1] ! 0) = Some ?rj" by simp_all
  have r: "remove_nth 0 (pit one_fetch) = []" and l: "length (pit one_fetch) - 1 + 0 = 0"
    by (simp_all add: one_fetch_eq remove_nth_def)
  note t = exhaustion_invokes_issuing_call[of 0 one_fetch _ _ _ chain_policy _ _ _ _ "[1]" ?h 0 ?rj
             0 ?r certificate_A, THEN conjunct2, THEN conjunct2, rule_format,
             OF conjI[OF h1 conjI[OF h2 conjI[OF h3 conjI[OF h4 conjI[OF h5' conjI[OF h6 conjI[OF h7 h8]]]]]]]]
  have a: "pit ?s' = [fetch_entry \<lparr>interest_name = [[99], [66]]\<rparr> 1
                        (Bind_failed 11 (Subject_Data certificate_A)) 0]"
    using t[THEN conjunct1] unfolding r
    by (simp add: issue_def request_for_def del: fire.simps)
  have to: "timeouts_of ?s' 0 (Suc (nat (m_retry ?rj))) = [Times_out 0]"
    by (simp add: timeouts_of_def request_for_def del: fire.simps)
  have b: "run chain_policy [Times_out 0] ?s'
       = (Returned, ?s'\<lparr>pit := [], trace := trace ?s' @ [Invoke (Bind_failed 11 (Subject_Data certificate_A))]\<rparr>)"
    using t[THEN conjunct2] unfolding l to
    by (simp add: a reissues_def request_for_def remove_nth_def del: fire.simps run.simps)
  have h8': "?h 1 = Some ?rj" by simp
  show ?thesis by (intro conjI h1 h2 h3 h4 h5 h8' a b)
qed

subsection \<open>Claim C5: no face, no requests\<close>

text \<open>
  C5: when \<open>checkPolicy\<close> returns requests and no face is set, \<open>validate\<close> (either
  overload) throws before any \<open>expressInterest\<close> call: the world is as \<open>checkPolicy\<close>
  left it, nothing is pending, and no failure continuation has been invoked. When
  \<open>checkPolicy\<close> returns no request, \<open>validate\<close> returns having done nothing else.
\<close>

theorem missing_face_throws:
  assumes "checkPolicy subj n v f (heap s) = (nextSteps, h)"
  shows "(nextSteps \<noteq> [] \<and> \<not> m_face s \<longrightarrow>
            validate checkPolicy subj v f n s =
              (Thrown_Face_not_set, s\<lparr>heap := h, trace := trace s @ [CheckPolicy subj n v f]\<rparr>))
       \<and> (nextSteps = [] \<longrightarrow>
            validate checkPolicy subj v f n s =
              (Returned, s\<lparr>heap := h, trace := trace s @ [CheckPolicy subj n v f]\<rparr>))
       \<and> (nextSteps = [] \<or> \<not> m_face s \<longrightarrow>
            pit (snd (validate checkPolicy subj v f n s)) = pit s
          \<and> (\<forall>a \<in> set (trace (snd (validate checkPolicy subj v f n s))).
                a \<in> set (trace s) \<or> a = CheckPolicy subj n v f))"
  by (auto simp: validate_unfold[of checkPolicy subj n v f s nextSteps h, OF assms])

theorem missing_face_throws_witness:
  "two_siblings (Subject_Data signed_data) 0 1 2 (heap (idle False))
     = ([0, 1], [0 \<mapsto> request_for [[99], [65]] 10 11 0 1, 1 \<mapsto> request_for [[99], [66]] 10 11 0 1])
   \<and> [0, 1 :: ref] \<noteq> [] \<and> \<not> m_face (idle False)
   \<and> validate two_siblings (Subject_Data signed_data) 1 2 0 (idle False) =
       (Thrown_Face_not_set,
        (idle False)\<lparr>heap := [0 \<mapsto> request_for [[99], [65]] 10 11 0 1,
                              1 \<mapsto> request_for [[99], [66]] 10 11 0 1],
                     trace := trace (idle False) @ [CheckPolicy (Subject_Data signed_data) 0 1 2]\<rparr>)
   \<and> chain_policy (Subject_Data digest_data) 0 1 2 (heap (idle True)) = ([], heap (idle True))
   \<and> validate chain_policy (Subject_Data digest_data) 1 2 0 (idle True) =
       (Returned,
        (idle True)\<lparr>heap := heap (idle True),
                    trace := trace (idle True) @ [CheckPolicy (Subject_Data digest_data) 0 1 2]\<rparr>)"
proof -
  have p: "two_siblings (Subject_Data signed_data) 0 1 2 (heap (idle False))
     = ([0, 1], [0 \<mapsto> request_for [[99], [65]] 10 11 0 1, 1 \<mapsto> request_for [[99], [66]] 10 11 0 1])"
    by (simp add: two_siblings_def idle_def)
  have q: "chain_policy (Subject_Data digest_data) 0 1 2 (heap (idle True)) = ([], heap (idle True))"
    using examples_differ by (simp add: chain_policy_def)
  have f: "\<not> m_face (idle False)" by (simp add: idle_def)
  show ?thesis
    using missing_face_throws[of two_siblings "Subject_Data signed_data" 0 1 2 "idle False", OF p]
      missing_face_throws[of chain_policy "Subject_Data digest_data" 0 1 2 "idle True", OF q] p q f
    by simp
qed

subsection \<open>Claim C6: arriving data is validated itself\<close>

lemma validate_trace_prefix:
  "take (Suc (length (trace s))) (trace (snd (validate P subj v f n s)))
     = trace s @ [CheckPolicy subj n v f]"
proof -
  obtain refs h where p: "P subj n v f (heap s) = (refs, h)" by (cases "P subj n v f (heap s)")
  let ?s1 = "s\<lparr>heap := h, trace := trace s @ [CheckPolicy subj n v f]\<rparr>"
  note u = validate_unfold[of P subj n v f s refs h, OF p]
  show ?thesis
  proof (cases "refs \<noteq> [] \<and> m_face s")
    case False
    then show ?thesis by (auto simp: u)
  next
    case True
    obtain out s' where e: "express_all (Bind_failed f subj) refs ?s1 = (out, s')"
      by (cases "express_all (Bind_failed f subj) refs ?s1")
    from express_all_prefix[OF e] obtain k where
      "s' = ?s1\<lparr>pit := pit ?s1 @ map (issue (heap ?s1) (Bind_failed f subj)) (take k refs),
               trace := trace ?s1 @ map (express_action \<circ> issue (heap ?s1) (Bind_failed f subj)) (take k refs)\<rparr>"
      by blast
    then have "trace s' = (trace s @ [CheckPolicy subj n v f])
                 @ map (express_action \<circ> issue h (Bind_failed f subj)) (take k refs)" by simp
    then show ?thesis using True e by (simp add: u)
  qed
qed

text \<open>
  C6: when data arrives for a pending fetch, the validator calls \<open>validate\<close> on the
  fetched object with the success continuation, the failure continuation and the step
  count stored in the request of that fetch; the next thing it does is the
  \<open>checkPolicy\<close> call with exactly these arguments.
\<close>

theorem data_arrival_revalidates:
  assumes "i < length (pit s)" and "pi_onData (pit s ! i) = OnData_bound nextStep"
    and "heap s nextStep = Some r"
  shows "fire checkPolicy (Data_arrives i d) s =
           validate_data checkPolicy d (m_onValidated r) (m_onDataValidated r) (m_stepCount r)
             (s\<lparr>pit := remove_nth i (pit s)\<rparr>)
       \<and> take (Suc (length (trace s))) (trace (snd (fire checkPolicy (Data_arrives i d) s)))
           = trace s @ [CheckPolicy (Subject_Data d) (m_stepCount r) (m_onValidated r)
                          (m_onDataValidated r)]"
proof -
  have 1: "fire checkPolicy (Data_arrives i d) s =
           validate_data checkPolicy d (m_onValidated r) (m_onDataValidated r) (m_stepCount r)
             (s\<lparr>pit := remove_nth i (pit s)\<rparr>)"
    using assms by (simp add: onData_def)
  show ?thesis
    unfolding 1 validate_data_def
    using validate_trace_prefix[of "s\<lparr>pit := remove_nth i (pit s)\<rparr>" checkPolicy "Subject_Data d"]
    by simp
qed

theorem data_arrival_revalidates_witness:
  "0 < length (pit one_fetch) \<and> pi_onData (pit one_fetch ! 0) = OnData_bound 0
   \<and> heap one_fetch 0 = Some (request_for [[99], [65]] 10 11 2 1)
   \<and> fire chain_policy (Data_arrives 0 certificate_A) one_fetch =
       validate_data chain_policy certificate_A 10 11 1 (one_fetch\<lparr>pit := []\<rparr>)
   \<and> take (Suc (length (trace one_fetch)))
        (trace (snd (fire chain_policy (Data_arrives 0 certificate_A) one_fetch)))
       = trace one_fetch @ [CheckPolicy (Subject_Data certificate_A) 1 10 11]"
proof -
  have h1: "0 < length (pit one_fetch)" and h2: "pi_onData (pit one_fetch ! 0) = OnData_bound 0"
    and h3: "heap one_fetch 0 = Some (request_for [[99], [65]] 10 11 2 1)"
    by (simp_all add: one_fetch_eq fetch_A_def fetch_entry_def)
  have r: "remove_nth 0 (pit one_fetch) = []" by (simp add: one_fetch_eq remove_nth_def)
  note t = data_arrival_revalidates[OF h1 h2 h3, of chain_policy certificate_A, unfolded r]
  have a: "fire chain_policy (Data_arrives 0 certificate_A) one_fetch =
             validate_data chain_policy certificate_A 10 11 1 (one_fetch\<lparr>pit := []\<rparr>)"
    using t[THEN conjunct1] by (simp add: request_for_def del: fire.simps)
  have b: "take (Suc (length (trace one_fetch)))
             (trace (snd (fire chain_policy (Data_arrives 0 certificate_A) one_fetch)))
           = trace one_fetch @ [CheckPolicy (Subject_Data certificate_A) 1 10 11]"
    using t[THEN conjunct2] by (simp add: request_for_def del: fire.simps)
  show ?thesis
    by (intro conjI h1 h2 h3 a b)
qed

subsection \<open>Claim C10: ValidationRequests are never written\<close>

lemma onTimeout_heap: "heap (snd (onTimeout I r c ns s)) = heap s"
  by (simp add: onTimeout_def expressInterest_def)

lemma fire_timeout_heap: "heap (snd (fire P (Times_out i) s)) = heap s"
  by (cases "pi_onTimeout (pit s ! i)") (simp add: onTimeout_heap)

lemma run_timeouts_heap: "list_all is_timeout evs \<Longrightarrow> heap (snd (run P evs s)) = heap s"
proof (induction evs arbitrary: s)
  case Nil
  then show ?case by simp
next
  case (Cons e es)
  then obtain i where e: "e = Times_out i" by (cases e) auto
  obtain out s1 where f: "fire P (Times_out i) s = (out, s1)" by (cases "fire P (Times_out i) s")
  have 1: "heap s1 = heap s" using fire_timeout_heap[of P i s] f by simp
  show ?case
  proof (cases "out = Returned")
    case True
    have "heap (snd (run P es s1)) = heap s1" using Cons by simp
    with 1 True f e show ?thesis by simp
  next
    case False
    with f e have "run P (e # es) s = (out, s1)" by (cases out) auto
    with 1 show ?thesis by simp
  qed
qed

lemma validate_heap: "heap (snd (validate P subj v f n s)) = snd (P subj n v f (heap s))"
proof -
  obtain refs h where p: "P subj n v f (heap s) = (refs, h)" by (cases "P subj n v f (heap s)")
  let ?s1 = "s\<lparr>heap := h, trace := trace s @ [CheckPolicy subj n v f]\<rparr>"
  note u = validate_unfold[of P subj n v f s refs h, OF p]
  show ?thesis
  proof (cases "refs \<noteq> [] \<and> m_face s")
    case False
    then show ?thesis using p by (auto simp: u)
  next
    case True
    obtain out s' where e: "express_all (Bind_failed f subj) refs ?s1 = (out, s')"
      by (cases "express_all (Bind_failed f subj) refs ?s1")
    show ?thesis using True e express_all_counts(3)[OF e] p by (simp add: u)
  qed
qed

text \<open>
  C10: no operation of the validator writes to a ValidationRequest. \<open>onTimeout\<close>
  leaves the store as it is, and the decremented retry count exists only in the timeout
  callback of the reissued fetch; any run of timeouts leaves the store as it is;
  \<open>validate\<close> and \<open>onData\<close> leave the store as \<open>checkPolicy\<close> returned it.
\<close>

theorem requests_never_written:
  "heap (snd (onTimeout interest retry onFailure nextStep s)) = heap s
   \<and> (m_face s \<and> 0 < retry \<longrightarrow>
        pit (snd (onTimeout interest retry onFailure nextStep s))
          = pit s @ [fetch_entry interest nextStep onFailure (retry - 1)])
   \<and> (list_all is_timeout evs \<longrightarrow> heap (snd (run checkPolicy evs s)) = heap s)
   \<and> heap (snd (validate checkPolicy subj v f n s)) = snd (checkPolicy subj n v f (heap s))
   \<and> (heap s nextStep = Some r \<longrightarrow>
        heap (snd (onData checkPolicy interest d nextStep s))
          = snd (checkPolicy (Subject_Data d) (m_stepCount r) (m_onValidated r)
                   (m_onDataValidated r) (heap s)))"
proof (intro conjI impI)
  show "heap (snd (onTimeout interest retry onFailure nextStep s)) = heap s"
    by (rule onTimeout_heap)
  show "pit (snd (onTimeout interest retry onFailure nextStep s))
          = pit s @ [fetch_entry interest nextStep onFailure (retry - 1)]"
    if "m_face s \<and> 0 < retry"
    using that by (simp add: onTimeout_def expressInterest_def fetch_entry_def)
  show "heap (snd (run checkPolicy evs s)) = heap s" if "list_all is_timeout evs"
    using that by (rule run_timeouts_heap)
  show "heap (snd (validate checkPolicy subj v f n s)) = snd (checkPolicy subj n v f (heap s))"
    by (rule validate_heap)
  show "heap (snd (onData checkPolicy interest d nextStep s))
          = snd (checkPolicy (Subject_Data d) (m_stepCount r) (m_onValidated r)
                   (m_onDataValidated r) (heap s))"
    if "heap s nextStep = Some r"
    using that by (simp add: onData_def validate_data_def validate_heap)
qed

theorem requests_never_written_witness:
  "m_face one_fetch \<and> 0 < (2 :: int) \<and> list_all is_timeout (timeouts_of one_fetch 0 3)
   \<and> heap one_fetch 0 = Some (request_for [[99], [65]] 10 11 2 1)
   \<and> heap (snd (onTimeout \<lparr>interest_name = [[99], [65]]\<rparr> 2
                  (Bind_failed 2 (Subject_Data signed_data)) 0 one_fetch)) = heap one_fetch
   \<and> pit (snd (onTimeout \<lparr>interest_name = [[99], [65]]\<rparr> 2
                 (Bind_failed 2 (Subject_Data signed_data)) 0 one_fetch))
       = pit one_fetch @ [fetch_entry \<lparr>interest_name = [[99], [65]]\<rparr> 0
                            (Bind_failed 2 (Subject_Data signed_data)) (2 - 1)]
   \<and> heap (snd (run chain_policy (timeouts_of one_fetch 0 3) one_fetch)) = heap one_fetch
   \<and> heap (snd (onData chain_policy \<lparr>interest_name = [[99], [65]]\<rparr> digest_data 0 one_fetch))
       = snd (chain_policy (Subject_Data digest_data)
                (m_stepCount (request_for [[99], [65]] 10 11 2 1))
                (m_onValidated (request_for [[99], [65]] 10 11 2 1))
                (m_onDataValidated (request_for [[99], [65]] 10 11 2 1)) (heap one_fetch))"
proof -
  have h1: "m_face one_fetch" and h2: "list_all is_timeout (timeouts_of one_fetch 0 3)"
    and h3: "heap one_fetch 0 = Some (request_for [[99], [65]] 10 11 2 1)"
    by (simp_all add: one_fetch_eq timeouts_of_def numeral_3_eq_3)
  show ?thesis
    using requests_never_written[of "\<lparr>interest_name = [[99], [65]]\<rparr>" 2
            "Bind_failed 2 (Subject_Data signed_data)" 0 one_fetch "timeouts_of one_fetch 0 3"
            chain_policy "Subject_Data digest_data" 0 0 0 "request_for [[99], [65]] 10 11 2 1"
            digest_data] h1 h2 h3
    by simp
qed

section \<open>Properties of the signature checks\<close>

lemma and_then_Value: "m = (l, Value x) \<Longrightarrow> and_then m f = (l @ fst (f x), snd (f x))"
  by (simp add: and_then_def split: prod.splits)

lemma and_then_call_Inr: "r = Inr x \<Longrightarrow> and_then (call c r) f = (c # fst (f x), snd (f x))"
  by (simp add: and_then_def call_def split: prod.splits)

lemma and_then_call_Inl: "r = Inl e \<Longrightarrow> and_then (call c r) f = ([c], Raised e)"
  by (simp add: and_then_def call_def)

lemma call_verdict: "call c r = ([c], verdict r)"
  by (simp add: call_def verdict_def)

lemma size_t_minus_exact: "b \<le> a \<Longrightarrow> a < 2 ^ 64 \<Longrightarrow> size_t_minus a b = a - b"
proof -
  assume le: "b \<le> a" and lt: "a < 2 ^ 64"
  have "int a < 2 ^ 64" using lt by (metis of_nat_less_iff of_nat_numeral of_nat_power)
  hence "(int a - int b) mod 2 ^ 64 = int a - int b" using le by (intro mod_pos_pos_trivial) auto
  thus ?thesis using le by (simp add: size_t_minus_def)
qed

lemma read_bytes_ok: "n \<le> length buf \<Longrightarrow> read_bytes buf n = ([], Value (take n buf))"
  by (simp add: read_bytes_def)

lemma fst_try_catch: "fst (try_catch m h) = fst m"
  by (cases m; cases "snd m") (auto simp: try_catch_def)

subsection \<open>Claim C7: short names\<close>

text \<open>
  C7: the check of a request whose name has fewer than three components returns
  \<open>false\<close> at once, with no call into the encoding or cryptographic libraries: the
  name is not encoded, nothing is parsed, no byte range is read.
\<close>

theorem short_name_false:
  "length (interest_name interest) < 3 \<Longrightarrow>
     verifySignature_interest lib interest key = ([], Value False)"
  by (simp add: verifySignature_interest_def return_value_def)

theorem short_name_false_witness:
  "length (interest_name short_interest) < 3
   \<and> verifySignature_interest stub_library short_interest some_key = ([], Value False)"
proof -
  have h: "length (interest_name short_interest) < 3" by (simp add: short_interest_def)
  show ?thesis using short_name_false[OF h, of stub_library some_key] h by simp
qed

subsection \<open>Claim C8: signature kinds other than Sha256WithRsa\<close>

lemma interest_signature_calls:
  "c \<in> set (fst (interest_signature lib n)) \<Longrightarrow> \<not> is_crypto c"
  by (auto simp: interest_signature_def info_argument_def value_argument_def and_then_def call_def
             return_value_def is_crypto_def
           split: sum.splits prod.splits if_splits evaluation_order.splits)

lemma interest_other_kind:
  assumes "interest_signature lib (interest_name interest) = (l, Value (nameBlock, s))"
    and "getType s \<noteq> Sha256WithRsa"
  shows "snd (verifySignature_interest lib interest key) = Value False
         \<and> list_all (\<lambda>c. \<not> is_crypto c) (fst (verifySignature_interest lib interest key))"
proof (cases "length (interest_name interest) < 3")
  case True
  then show ?thesis by (simp add: verifySignature_interest_def return_value_def)
next
  case False
  have d: "(case getType s of Sha256WithRsa \<Rightarrow> a | _ \<Rightarrow> b) = b" for a b :: "bool comp"
    using assms(2) by (cases "getType s") auto
  have "verifySignature_interest lib interest key = (l, Value False)"
    using False unfolding verifySignature_interest_def Let_def
    by (simp add: and_then_Value[OF assms(1)] d return_value_def try_catch_def)
  moreover have "list_all (\<lambda>c. \<not> is_crypto c) l"
    using interest_signature_calls[of _ lib "interest_name interest"] assms(1)
    by (simp add: list_all_iff)
  ultimately show ?thesis by simp
qed

lemma data_other_kind:
  "getType (getSignature data) \<noteq> Sha256WithRsa \<Longrightarrow> verifySignature_data lib data key = ([], Value False)"
  by (cases "getType (getSignature data)") (auto simp: verifySignature_data_def return_value_def try_catch_def)

lemma buffer_other_kind:
  "getType sig \<noteq> Sha256WithRsa \<Longrightarrow> verifySignature_buffer lib buf sig key = ([], Value False)"
  by (cases "getType sig") (auto simp: verifySignature_buffer_def return_value_def try_catch_def)

lemma digest_interest_signature:
  "interest_signature stub_library (interest_name digest_interest) =
     ([Call_name_wireEncode, Call_blockFromValue, Call_blockFromValue, Call_Signature],
      Value (Block [7, 14] [8, 1, 65, 8, 3, 22, 1, 0, 8, 4, 23, 2, 9, 9]
               [Block [8, 1] [65] [], Block [8, 3] [22, 1, 0] [], Block [8, 4] [23, 2, 9, 9] []],
             \<lparr>getType = Sha256, getInfo = Block [22, 1] [0] [], getValue = Block [23, 2] [9, 9] []\<rparr>))"
  by (simp add: interest_signature_def info_argument_def value_argument_def digest_interest_def
        stub_library_def and_then_def call_def
        return_value_def tlv_def wire_def name_value_def)

text \<open>
  C8: with a signature of any kind other than \<open>Sha256WithRsa\<close>, known or unknown, the
  check returns \<open>false\<close> and raises nothing. For a signed object and for raw bytes it
  makes no library call at all; for a request, whose signature has to be decoded from
  the name first, it makes no call into the cryptographic library.
\<close>

theorem unsupported_kind_false:
  "(getType (getSignature data) \<noteq> Sha256WithRsa \<longrightarrow>
      verifySignature_data lib data key = ([], Value False))
   \<and> (getType sig \<noteq> Sha256WithRsa \<longrightarrow>
      verifySignature_buffer lib buf sig key = ([], Value False))
   \<and> (interest_signature lib (interest_name interest) = (l, Value (nameBlock, s))
        \<and> getType s \<noteq> Sha256WithRsa \<longrightarrow>
      snd (verifySignature_interest lib interest key) = Value False
      \<and> list_all (\<lambda>c. \<not> is_crypto c) (fst (verifySignature_interest lib interest key)))"
  using data_other_kind[of data lib key] buffer_other_kind[of sig lib buf key]
    interest_other_kind[of lib interest l nameBlock s key]
  by blast

theorem unsupported_kind_false_witness:
  "getType (getSignature digest_data) \<noteq> Sha256WithRsa
   \<and> verifySignature_data stub_library digest_data some_key = ([], Value False)
   \<and> getType (signature_of_kind 7 (Unknown_type 7) [9, 9]) \<noteq> Sha256WithRsa
   \<and> verifySignature_buffer stub_library [1, 2] (signature_of_kind 7 (Unknown_type 7) [9, 9]) some_key
       = ([], Value False)
   \<and> snd (verifySignature_interest stub_library digest_interest some_key) = Value False
   \<and> list_all (\<lambda>c. \<not> is_crypto c) (fst (verifySignature_interest stub_library digest_interest some_key))"
proof -
  have h1: "getType (getSignature digest_data) \<noteq> Sha256WithRsa"
    and h2: "getType (signature_of_kind 7 (Unknown_type 7) [9, 9]) \<noteq> Sha256WithRsa"
    by (simp_all add: digest_data_def signature_of_kind_def)
  have h3: "getType \<lparr>getType = Sha256, getInfo = Block [22, 1] [0] [], getValue = Block [23, 2] [9, 9] []\<rparr>
              \<noteq> Sha256WithRsa" by simp
  show ?thesis
    using unsupported_kind_false[of digest_data stub_library some_key
            "signature_of_kind 7 (Unknown_type 7) [9, 9]" "[1, 2]" digest_interest, OF]
          digest_interest_signature h1 h2 h3
    by blast
qed

subsection \<open>Claim C9: the bytes handed to the verifier\<close>

text \<open>
  C9 as written: for a signed object the verifier is handed the full encoded
  representation without the trailing signature-value bytes. The source passes
  \<open>wireEncode().value()\<close> with a length taken from \<open>value_size()\<close>: the message
  starts after the outer type-and-length header. For \<open>signed_data\<close>, encoded as
  \<open>6 15 7 3 \<dots>\<close>, the range the claim names starts with the header bytes \<open>6 15\<close>;
  the bytes handed to the verifier start at \<open>7\<close>.
\<close>

theorem signed_range_excludes_header:
  "data_wireEncode stub_library signed_data
     = Inr (Block [6, 15] [7, 3, 8, 1, 65, 21, 1, 66, 22, 1, 1, 23, 2, 9, 9] [])
   \<and> spec_signed_range (Block [6, 15] [7, 3, 8, 1, 65, 21, 1, 66, 22, 1, 1, 23, 2, 9, 9] [])
        (getValue (getSignature signed_data))
     = [6, 15, 7, 3, 8, 1, 65, 21, 1, 66, 22, 1, 1]
   \<and> fst (verifySignature_data_rsa stub_library signed_data (getSignature signed_data) some_key)
     = [Call_Load [5], Call_data_wireEncode, Call_data_wireEncode,
        Call_VerifyMessage [7, 3, 8, 1, 65, 21, 1, 66, 22, 1, 1] [9, 9]]
   \<and> Call_VerifyMessage
        (spec_signed_range (Block [6, 15] [7, 3, 8, 1, 65, 21, 1, 66, 22, 1, 1, 23, 2, 9, 9] [])
           (getValue (getSignature signed_data))) [9, 9]
       \<notin> set (fst (verifySignature_data_rsa stub_library signed_data (getSignature signed_data)
                      some_key))"
  by (simp add: verifySignature_data_rsa_def stub_library_def signed_data_def signature_of_kind_def
        some_key_def and_then_def call_def read_bytes_def size_t_minus_def tlv_def wire_def
        name_value_def value_size_def block_size_def spec_signed_range_def)

lemma data_rsa_range:
  assumes "Load lib (key_bits key) = Inr pk" and "data_wireEncode lib data = Inr w"
    and "block_size (getValue (getSignature data)) \<le> value_size w" and "value_size w < 2 ^ 64"
  shows "verifySignature_data_rsa lib data sig key =
           ([Call_Load (key_bits key), Call_data_wireEncode, Call_data_wireEncode,
             Call_VerifyMessage (signed_range w (getValue (getSignature data))) (val (getValue sig))],
            verdict (VerifyMessage lib pk (signed_range w (getValue (getSignature data))) (val (getValue sig))))"
proof -
  have n: "size_t_minus (value_size w) (block_size (getValue (getSignature data)))
             = value_size w - block_size (getValue (getSignature data))"
    using assms(3,4) by (rule size_t_minus_exact)
  have r: "read_bytes (val w) (value_size w - block_size (getValue (getSignature data)))
             = ([], Value (signed_range w (getValue (getSignature data))))"
    by (simp add: read_bytes_def signed_range_def value_size_def)
  show ?thesis
    unfolding verifySignature_data_rsa_def
    by (simp add: and_then_call_Inr[OF assms(1)] and_then_call_Inr[OF assms(2)] n
                  and_then_Value[OF r] call_verdict)
qed

lemma ptr_rsa_range:
  assumes "Load lib (key_bits key) = Inr pk" and "n \<le> length buf"
  shows "verifySignature_ptr_rsa lib buf n sig key =
           ([Call_Load (key_bits key), Call_VerifyMessage (take n buf) (val (getValue sig))],
            verdict (VerifyMessage lib pk (take n buf) (val (getValue sig))))"
  unfolding verifySignature_ptr_rsa_def
  by (simp add: and_then_call_Inr[OF assms(1)] and_then_Value[OF read_bytes_ok[OF assms(2)]] call_verdict)

lemma interest_rsa_range:
  assumes "3 \<le> length (interest_name interest)"
    and "interest_signature lib (interest_name interest) = (l, Value (nameBlock, s))"
    and "getType s = Sha256WithRsa" and "SignatureSha256WithRsa_of lib s = Inr sg"
    and "Load lib (key_bits key) = Inr pk"
    and "block_size (last (getAll nameBlock)) \<le> value_size nameBlock" and "value_size nameBlock < 2 ^ 64"
  shows "fst (verifySignature_interest lib interest key) =
           l @ [Call_SignatureSha256WithRsa, Call_Load (key_bits key),
                 Call_VerifyMessage (signed_range nameBlock (last (getAll nameBlock))) (val (getValue sg))]"
proof -
  have n: "size_t_minus (value_size nameBlock) (block_size (last (getAll nameBlock)))
             = value_size nameBlock - block_size (last (getAll nameBlock))"
    using assms(6,7) by (rule size_t_minus_exact)
  have le: "value_size nameBlock - block_size (last (getAll nameBlock)) \<le> length (val nameBlock)"
    by (simp add: value_size_def)
  show ?thesis
    using assms(1)
    unfolding verifySignature_interest_def Let_def
    by (simp add: fst_try_catch and_then_Value[OF assms(2)] assms(3) and_then_call_Inr[OF assms(4)] n
          ptr_rsa_range[OF assms(5) le] signed_range_def)
qed

lemma signed_interest_signature:
  "interest_signature stub_library (interest_name signed_interest) =
     ([Call_name_wireEncode, Call_blockFromValue, Call_blockFromValue, Call_Signature],
      Value (Block [7, 14] [8, 1, 65, 8, 3, 22, 1, 1, 8, 4, 23, 2, 9, 9]
               [Block [8, 1] [65] [], Block [8, 3] [22, 1, 1] [], Block [8, 4] [23, 2, 9, 9] []],
             \<lparr>getType = Sha256WithRsa, getInfo = Block [22, 1] [1] [],
                getValue = Block [23, 2] [9, 9] []\<rparr>))"
  by (simp add: interest_signature_def info_argument_def value_argument_def signed_interest_def
        stub_library_def and_then_def call_def
        return_value_def tlv_def wire_def name_value_def)

text \<open>
  C9 as amended: in the RsaSha256 check the verifier is handed, for a signed object, the
  value of the object's encoded element (its encoding without the outer type-and-length
  header) minus the trailing bytes of the whole SignatureValue element, and for a request
  with at least three name components the value of the encoded name (the encoded
  components, without the name's outer header) minus the bytes of the whole final
  component; in both cases together with the value of the signature's SignatureValue.
\<close>

theorem signed_byte_range:
  "(Load lib (key_bits key) = Inr pk \<and> data_wireEncode lib data = Inr w
      \<and> block_size (getValue (getSignature data)) \<le> value_size w \<and> value_size w < 2 ^ 64 \<longrightarrow>
    fst (verifySignature_data_rsa lib data sig key) =
      [Call_Load (key_bits key), Call_data_wireEncode, Call_data_wireEncode,
       Call_VerifyMessage
         (take (value_size w - block_size (getValue (getSignature data))) (val w))
         (val (getValue sig))])
   \<and> (3 \<le> length (interest_name interest)
      \<and> interest_signature lib (interest_name interest) = (l, Value (nameBlock, s))
      \<and> getType s = Sha256WithRsa \<and> SignatureSha256WithRsa_of lib s = Inr sg
      \<and> Load lib (key_bits key') = Inr pk'
      \<and> block_size (last (getAll nameBlock)) \<le> value_size nameBlock
      \<and> value_size nameBlock < 2 ^ 64 \<longrightarrow>
    fst (verifySignature_interest lib interest key') =
      l @ [Call_SignatureSha256WithRsa, Call_Load (key_bits key'),
           Call_VerifyMessage
             (take (value_size nameBlock - block_size (last (getAll nameBlock))) (val nameBlock))
             (val (getValue sg))])"
  using data_rsa_range[of lib key pk data w sig]
    interest_rsa_range[of interest lib l nameBlock s sg key' pk']
  by (simp add: signed_range_def)

theorem signed_byte_range_witness:
  "Load stub_library (key_bits some_key) = Inr [5]
   \<and> data_wireEncode stub_library signed_data
       = Inr (Block [6, 15] [7, 3, 8, 1, 65, 21, 1, 66, 22, 1, 1, 23, 2, 9, 9] [])
   \<and> block_size (getValue (getSignature signed_data))
       \<le> value_size (Block [6, 15] [7, 3, 8, 1, 65, 21, 1, 66, 22, 1, 1, 23, 2, 9, 9] [])
   \<and> value_size (Block [6, 15] [7, 3, 8, 1, 65, 21, 1, 66, 22, 1, 1, 23, 2, 9, 9] []) < 2 ^ 64
   \<and> fst (verifySignature_data_rsa stub_library signed_data (getSignature signed_data) some_key) =
       [Call_Load [5], Call_data_wireEncode, Call_data_wireEncode,
        Call_VerifyMessage [7, 3, 8, 1, 65, 21, 1, 66, 22, 1, 1] [9, 9]]
   \<and> 3 \<le> length (interest_name signed_interest)
   \<and> fst (verifySignature_interest stub_library signed_interest some_key) =
       [Call_name_wireEncode, Call_blockFromValue, Call_blockFromValue, Call_Signature,
        Call_SignatureSha256WithRsa, Call_Load [5],
        Call_VerifyMessage [8, 1, 65, 8, 3, 22, 1, 1] [9, 9]]"
proof -
  let ?w = "Block [6, 15] [7, 3, 8, 1, 65, 21, 1, 66, 22, 1, 1, 23, 2, 9, 9] []"
  let ?nb = "Block [7, 14] [8, 1, 65, 8, 3, 22, 1, 1, 8, 4, 23, 2, 9, 9]
               [Block [8, 1] [65] [], Block [8, 3] [22, 1, 1] [], Block [8, 4] [23, 2, 9, 9] []]"
  let ?s = "\<lparr>getType = Sha256WithRsa, getInfo = Block [22, 1] [1] [],
                getValue = Block [23, 2] [9, 9] []\<rparr>"
  have h1: "Load stub_library (key_bits some_key) = Inr [5]"
    and h2: "data_wireEncode stub_library signed_data = Inr ?w"
    and h3: "block_size (getValue (getSignature signed_data)) \<le> value_size ?w"
    and h4: "value_size ?w < 2 ^ 64"
    and h5: "3 \<le> length (interest_name signed_interest)"
    and h6: "getType ?s = Sha256WithRsa" and h7: "SignatureSha256WithRsa_of stub_library ?s = Inr ?s"
    and h8: "block_size (last (getAll ?nb)) \<le> value_size ?nb" and h9: "value_size ?nb < 2 ^ 64"
    by (simp_all add: stub_library_def some_key_def signed_data_def signature_of_kind_def tlv_def
          wire_def name_value_def value_size_def block_size_def signed_interest_def)
  note t = signed_byte_range[of stub_library some_key "[5]" signed_data ?w "getSignature signed_data"
             signed_interest _ ?nb ?s ?s some_key "[5]"]
  have a: "fst (verifySignature_data_rsa stub_library signed_data (getSignature signed_data) some_key) =
       [Call_Load (key_bits some_key), Call_data_wireEncode, Call_data_wireEncode,
        Call_VerifyMessage
          (take (value_size ?w - block_size (getValue (getSignature signed_data))) (val ?w))
          (val (getValue (getSignature signed_data)))]"
    using t h1 h2 h3 h4 by blast
  have b: "fst (verifySignature_interest stub_library signed_interest some_key) =
       [Call_name_wireEncode, Call_blockFromValue, Call_blockFromValue, Call_Signature]
       @ [Call_SignatureSha256WithRsa, Call_Load (key_bits some_key),
          Call_VerifyMessage (take (value_size ?nb - block_size (last (getAll ?nb))) (val ?nb))
            (val (getValue ?s))]"
    using t h1 h5 signed_interest_signature h6 h7 h8 h9 by blast
  have a': "fst (verifySignature_data_rsa stub_library signed_data (getSignature signed_data) some_key) =
       [Call_Load [5], Call_data_wireEncode, Call_data_wireEncode,
        Call_VerifyMessage [7, 3, 8, 1, 65, 21, 1, 66, 22, 1, 1] [9, 9]]"
    unfolding a
    by (simp add: value_size_def block_size_def signed_data_def signature_of_kind_def
          tlv_def some_key_def)
  have b': "fst (verifySignature_interest stub_library signed_interest some_key) =
       [Call_name_wireEncode, Call_blockFromValue, Call_blockFromValue, Call_Signature,
        Call_SignatureSha256WithRsa, Call_Load [5],
        Call_VerifyMessage [8, 1, 65, 8, 3, 22, 1, 1] [9, 9]]"
    unfolding b by (simp add: value_size_def block_size_def some_key_def)
  show ?thesis by (intro conjI h1 h2 h3 h4 h5 a' b')
qed

subsection \<open>Claim C4: which errors become false\<close>

lemma try_catch_never_handled: "handled e \<Longrightarrow> snd (try_catch m handled) \<noteq> Raised e"
  by (cases m; cases "snd m") (auto simp: try_catch_def)

lemma try_catch_one:
  "try_catch m (\<lambda>e. e = Signature_Error) =
     (fst m, if snd m = Raised Signature_Error then Value False else snd m)"
  by (cases m; cases "snd m") (auto simp: try_catch_def)

lemma try_catch_two:
  "try_catch m (\<lambda>e. e = Signature_Error \<or> e = Block_Error) =
     (fst m, if snd m = Raised Signature_Error \<or> snd m = Raised Block_Error then Value False
             else snd m)"
  by (cases m; cases "snd m") (auto simp: try_catch_def)

text \<open>
  C4 as written: the check never lets an exception out, whatever the key and the
  signature. The handlers of the source name \<open>Signature::Error\<close> (and, for a request,
  \<open>Block::Error\<close>) and nothing else, and the key is decoded inside the protected
  block: with a key decoder that throws on an empty key, the check of \<open>signed_data\<close>
  against the empty key ends with that exception in flight, not with \<open>false\<close>.
\<close>

theorem key_decoding_error_escapes:
  "verifySignature_data stub_library signed_data empty_key =
     ([Call_SignatureSha256WithRsa, Call_Load []], Raised Other_exception)"
  by (simp add: verifySignature_data_def verifySignature_data_rsa_def stub_library_def signed_data_def
        signature_of_kind_def empty_key_def and_then_def call_def try_catch_def)

lemma data_dispatch:
  assumes "getType (getSignature data) = Sha256WithRsa"
  shows "SignatureSha256WithRsa_of lib (getSignature data) = Inl e \<Longrightarrow>
           verifySignature_data lib data key =
             ([Call_SignatureSha256WithRsa], if e = Signature_Error then Value False else Raised e)"
    and "SignatureSha256WithRsa_of lib (getSignature data) = Inr sg \<Longrightarrow>
           verifySignature_data lib data key =
             (Call_SignatureSha256WithRsa # fst (verifySignature_data_rsa lib data sg key),
              if snd (verifySignature_data_rsa lib data sg key) = Raised Signature_Error
              then Value False else snd (verifySignature_data_rsa lib data sg key))"
  using assms
  by (simp_all add: verifySignature_data_def try_catch_one and_then_call_Inl and_then_call_Inr)

lemma buffer_dispatch:
  assumes "getType sig = Sha256WithRsa"
  shows "SignatureSha256WithRsa_of lib sig = Inl e \<Longrightarrow>
           verifySignature_buffer lib buf sig key =
             ([Call_SignatureSha256WithRsa], if e = Signature_Error then Value False else Raised e)"
    and "SignatureSha256WithRsa_of lib sig = Inr sg \<Longrightarrow>
           verifySignature_buffer lib buf sig key =
             (Call_SignatureSha256WithRsa # fst (verifySignature_buffer_rsa lib buf sg key),
              if snd (verifySignature_buffer_rsa lib buf sg key) = Raised Signature_Error
              then Value False else snd (verifySignature_buffer_rsa lib buf sg key))"
  using assms
  by (simp_all add: verifySignature_buffer_def try_catch_one and_then_call_Inl and_then_call_Inr)

lemma interest_dispatch:
  assumes "3 \<le> length (interest_name interest)"
  shows "interest_signature lib (interest_name interest) = (l, Raised e) \<Longrightarrow>
           verifySignature_interest lib interest key =
             (l, if e = Signature_Error \<or> e = Block_Error then Value False else Raised e)"
    and "interest_signature lib (interest_name interest) = (l, Value (nameBlock, s)) \<Longrightarrow>
         getType s = Sha256WithRsa \<Longrightarrow> SignatureSha256WithRsa_of lib s = Inl e \<Longrightarrow>
           verifySignature_interest lib interest key =
             (l @ [Call_SignatureSha256WithRsa],
              if e = Signature_Error \<or> e = Block_Error then Value False else Raised e)"
    and "interest_signature lib (interest_name interest) = (l, Value (nameBlock, s)) \<Longrightarrow>
         getType s = Sha256WithRsa \<Longrightarrow> SignatureSha256WithRsa_of lib s = Inr sg \<Longrightarrow>
           verifySignature_interest lib interest key =
             (l @ Call_SignatureSha256WithRsa
                # fst (verifySignature_ptr_rsa lib (val nameBlock)
                         (size_t_minus (value_size nameBlock) (block_size (last (getAll nameBlock))))
                         sg key),
              if snd (verifySignature_ptr_rsa lib (val nameBlock)
                        (size_t_minus (value_size nameBlock) (block_size (last (getAll nameBlock))))
                        sg key) = Raised Signature_Error
               \<or> snd (verifySignature_ptr_rsa lib (val nameBlock)
                        (size_t_minus (value_size nameBlock) (block_size (last (getAll nameBlock))))
                        sg key) = Raised Block_Error
              then Value False
              else snd (verifySignature_ptr_rsa lib (val nameBlock)
                          (size_t_minus (value_size nameBlock) (block_size (last (getAll nameBlock))))
                          sg key))"
proof -
  have u: "verifySignature_interest lib interest key =
             try_catch
               (and_then (interest_signature lib (interest_name interest)) (\<lambda>(nameBlock, sig).
                  case getType sig of
                    Sha256WithRsa \<Rightarrow>
                      and_then (call Call_SignatureSha256WithRsa (SignatureSha256WithRsa_of lib sig))
                        (\<lambda>sigSha256Rsa.
                           verifySignature_ptr_rsa lib (val nameBlock)
                             (size_t_minus (value_size nameBlock)
                                (block_size (last (getAll nameBlock))))
                             sigSha256Rsa key)
                  | _ \<Rightarrow> return_value False))
               (\<lambda>e. e = Signature_Error \<or> e = Block_Error)"
    using assms by (simp add: verifySignature_interest_def Let_def)
  show "verifySignature_interest lib interest key =
             (l, if e = Signature_Error \<or> e = Block_Error then Value False else Raised e)"
    if "interest_signature lib (interest_name interest) = (l, Raised e)"
    unfolding u using that by (simp add: try_catch_two and_then_def)
  show "verifySignature_interest lib interest key =
             (l @ [Call_SignatureSha256WithRsa],
              if e = Signature_Error \<or> e = Block_Error then Value False else Raised e)"
    if "interest_signature lib (interest_name interest) = (l, Value (nameBlock, s))"
      "getType s = Sha256WithRsa" "SignatureSha256WithRsa_of lib s = Inl e"
    unfolding u using that(2)
    by (simp add: try_catch_two and_then_Value[OF that(1)] and_then_call_Inl[OF that(3)])
  show "verifySignature_interest lib interest key =
             (l @ Call_SignatureSha256WithRsa
                # fst (verifySignature_ptr_rsa lib (val nameBlock)
                         (size_t_minus (value_size nameBlock) (block_size (last (getAll nameBlock))))
                         sg key),
              if snd (verifySignature_ptr_rsa lib (val nameBlock)
                        (size_t_minus (value_size nameBlock) (block_size (last (getAll nameBlock))))
                        sg key) = Raised Signature_Error
               \<or> snd (verifySignature_ptr_rsa lib (val nameBlock)
                        (size_t_minus (value_size nameBlock) (block_size (last (getAll nameBlock))))
                        sg key) = Raised Block_Error
              then Value False
              else snd (verifySignature_ptr_rsa lib (val nameBlock)
                          (size_t_minus (value_size nameBlock) (block_size (last (getAll nameBlock))))
                          sg key))"
    if "interest_signature lib (interest_name interest) = (l, Value (nameBlock, s))"
      "getType s = Sha256WithRsa" "SignatureSha256WithRsa_of lib s = Inr sg"
    unfolding u using that(2)
    by (simp add: try_catch_two and_then_Value[OF that(1)] and_then_call_Inr[OF that(3)])
qed

lemma rsa_bodies_propagate:
  shows "Load lib (key_bits key) = Inl e \<Longrightarrow>
           verifySignature_data_rsa lib data sg key = ([Call_Load (key_bits key)], Raised e)"
    and "Load lib (key_bits key) = Inl e \<Longrightarrow>
           verifySignature_buffer_rsa lib buf sg key = ([Call_Load (key_bits key)], Raised e)"
    and "Load lib (key_bits key) = Inl e \<Longrightarrow>
           verifySignature_ptr_rsa lib buf len sg key = ([Call_Load (key_bits key)], Raised e)"
    and "Load lib (key_bits key) = Inr pk \<Longrightarrow> data_wireEncode lib data = Inl e \<Longrightarrow>
           verifySignature_data_rsa lib data sg key =
             ([Call_Load (key_bits key), Call_data_wireEncode], Raised e)"
  by (simp_all add: verifySignature_data_rsa_def verifySignature_buffer_rsa_def
        verifySignature_ptr_rsa_def and_then_call_Inl and_then_call_Inr)

lemma malformed_interest_signature:
  "interest_signature stub_library (interest_name malformed_interest) =
     ([Call_name_wireEncode, Call_blockFromValue], Raised Block_Error)"
  by (simp add: interest_signature_def info_argument_def value_argument_def malformed_interest_def
        stub_library_def and_then_def call_def return_value_def tlv_def wire_def name_value_def)

text \<open>
  Where both constructor arguments of line 148 fail, the order of evaluation decides which
  exception is in flight, and so whether the check returns \<open>false\<close> or throws.
\<close>

lemma argument_order_on_error_path:
  "verifySignature_interest (picky_library Left_to_right) signed_interest some_key
     = ([Call_name_wireEncode, Call_blockFromValue], Value False)"
  "verifySignature_interest (picky_library Right_to_left) signed_interest some_key
     = ([Call_name_wireEncode, Call_blockFromValue], Raised Other_exception)"
  by (simp_all add: verifySignature_interest_def interest_signature_def info_argument_def
        value_argument_def picky_library_def signed_interest_def stub_library_def and_then_def
        call_def return_value_def try_catch_def tlv_def wire_def name_value_def)

text \<open>
  C4 as amended: the check converts to \<open>false\<close> exactly the errors its handlers name:
  \<open>Signature::Error\<close> in all three forms, and \<open>Block::Error\<close> in the request form
  only. For a signed object and for raw bytes the result is that of the RsaSha256 check
  except that \<open>Signature::Error\<close> becomes \<open>false\<close>; for a request it is that of
  decoding the signature and of the RsaSha256 check except that \<open>Signature::Error\<close> and
  \<open>Block::Error\<close> become \<open>false\<close>. The RsaSha256 checks have no handler: an
  exception of the key decoder or of the encoder leaves them as it is. So any exception of
  another class, the key decoder's on malformed key bytes among them, reaches the caller,
  and so does a \<open>Block::Error\<close> in the signed-object and raw-bytes forms.
\<close>

theorem exactly_named_errors_become_false:
  "snd (verifySignature_data lib data key) \<noteq> Raised Signature_Error
   \<and> snd (verifySignature_buffer lib buf sig key) \<noteq> Raised Signature_Error
   \<and> snd (verifySignature_interest lib interest key) \<noteq> Raised Signature_Error
   \<and> snd (verifySignature_interest lib interest key) \<noteq> Raised Block_Error
   \<and> (getType (getSignature data) = Sha256WithRsa
        \<and> SignatureSha256WithRsa_of lib (getSignature data) = Inl e \<longrightarrow>
      verifySignature_data lib data key =
        ([Call_SignatureSha256WithRsa], if e = Signature_Error then Value False else Raised e))
   \<and> (getType (getSignature data) = Sha256WithRsa
        \<and> SignatureSha256WithRsa_of lib (getSignature data) = Inr sg \<longrightarrow>
      verifySignature_data lib data key =
        (Call_SignatureSha256WithRsa # fst (verifySignature_data_rsa lib data sg key),
         if snd (verifySignature_data_rsa lib data sg key) = Raised Signature_Error
         then Value False else snd (verifySignature_data_rsa lib data sg key)))
   \<and> (getType sig = Sha256WithRsa \<and> SignatureSha256WithRsa_of lib sig = Inl e \<longrightarrow>
      verifySignature_buffer lib buf sig key =
        ([Call_SignatureSha256WithRsa], if e = Signature_Error then Value False else Raised e))
   \<and> (getType sig = Sha256WithRsa \<and> SignatureSha256WithRsa_of lib sig = Inr sg \<longrightarrow>
      verifySignature_buffer lib buf sig key =
        (Call_SignatureSha256WithRsa # fst (verifySignature_buffer_rsa lib buf sg key),
         if snd (verifySignature_buffer_rsa lib buf sg key) = Raised Signature_Error
         then Value False else snd (verifySignature_buffer_rsa lib buf sg key)))
   \<and> (3 \<le> length (interest_name interest)
        \<and> interest_signature lib (interest_name interest) = (l, Raised e) \<longrightarrow>
      verifySignature_interest lib interest key =
        (l, if e = Signature_Error \<or> e = Block_Error then Value False else Raised e))
   \<and> (3 \<le> length (interest_name interest)
        \<and> interest_signature lib (interest_name interest) = (l, Value (nameBlock, s))
        \<and> getType s = Sha256WithRsa \<and> SignatureSha256WithRsa_of lib s = Inl e \<longrightarrow>
      verifySignature_interest lib interest key =
        (l @ [Call_SignatureSha256WithRsa],
         if e = Signature_Error \<or> e = Block_Error then Value False else Raised e))
   \<and> (3 \<le> length (interest_name interest)
        \<and> interest_signature lib (interest_name interest) = (l, Value (nameBlock, s))
        \<and> getType s = Sha256WithRsa \<and> SignatureSha256WithRsa_of lib s = Inr sg \<longrightarrow>
      verifySignature_interest lib interest key =
        (l @ Call_SignatureSha256WithRsa # fst (verifySignature_ptr_rsa lib (val nameBlock)
                   (size_t_minus (value_size nameBlock) (block_size (last (getAll nameBlock))))
                   sg key),
         if snd (verifySignature_ptr_rsa lib (val nameBlock)
                   (size_t_minus (value_size nameBlock) (block_size (last (getAll nameBlock))))
                   sg key) = Raised Signature_Error
          \<or> snd (verifySignature_ptr_rsa lib (val nameBlock)
                   (size_t_minus (value_size nameBlock) (block_size (last (getAll nameBlock))))
                   sg key) = Raised Block_Error
         then Value False
         else snd (verifySignature_ptr_rsa lib (val nameBlock)
                   (size_t_minus (value_size nameBlock) (block_size (last (getAll nameBlock))))
                   sg key)))
   \<and> (Load lib (key_bits key) = Inl e \<longrightarrow>
      verifySignature_data_rsa lib data sg key = ([Call_Load (key_bits key)], Raised e)
      \<and> verifySignature_buffer_rsa lib buf sg key = ([Call_Load (key_bits key)], Raised e)
      \<and> verifySignature_ptr_rsa lib buf len sg key = ([Call_Load (key_bits key)], Raised e))
   \<and> (Load lib (key_bits key) = Inr pk \<and> data_wireEncode lib data = Inl e \<longrightarrow>
      verifySignature_data_rsa lib data sg key =
        ([Call_Load (key_bits key), Call_data_wireEncode], Raised e))"
proof (intro conjI impI)
  show "snd (verifySignature_data lib data key) \<noteq> Raised Signature_Error"
    unfolding verifySignature_data_def by (rule try_catch_never_handled) simp
  show "snd (verifySignature_buffer lib buf sig key) \<noteq> Raised Signature_Error"
    unfolding verifySignature_buffer_def by (rule try_catch_never_handled) simp
  show "snd (verifySignature_interest lib interest key) \<noteq> Raised Signature_Error"
    unfolding verifySignature_interest_def Let_def
    by (auto simp: return_value_def try_catch_never_handled)
  show "snd (verifySignature_interest lib interest key) \<noteq> Raised Block_Error"
    unfolding verifySignature_interest_def Let_def
    by (auto simp: return_value_def try_catch_never_handled)
  show "verifySignature_data lib data key =
        ([Call_SignatureSha256WithRsa], if e = Signature_Error then Value False else Raised e)"
    if "getType (getSignature data) = Sha256WithRsa
        \<and> SignatureSha256WithRsa_of lib (getSignature data) = Inl e"
    using that data_dispatch(1)[of data lib e key] by blast
  show "verifySignature_data lib data key =
        (Call_SignatureSha256WithRsa # fst (verifySignature_data_rsa lib data sg key),
         if snd (verifySignature_data_rsa lib data sg key) = Raised Signature_Error
         then Value False else snd (verifySignature_data_rsa lib data sg key))"
    if "getType (getSignature data) = Sha256WithRsa
        \<and> SignatureSha256WithRsa_of lib (getSignature data) = Inr sg"
    using that data_dispatch(2)[of data lib sg key] by blast
  show "verifySignature_buffer lib buf sig key =
        ([Call_SignatureSha256WithRsa], if e = Signature_Error then Value False else Raised e)"
    if "getType sig = Sha256WithRsa \<and> SignatureSha256WithRsa_of lib sig = Inl e"
    using that buffer_dispatch(1)[of sig lib e buf key] by blast
  show "verifySignature_buffer lib buf sig key =
        (Call_SignatureSha256WithRsa # fst (verifySignature_buffer_rsa lib buf sg key),
         if snd (verifySignature_buffer_rsa lib buf sg key) = Raised Signature_Error
         then Value False else snd (verifySignature_buffer_rsa lib buf sg key))"
    if "getType sig = Sha256WithRsa \<and> SignatureSha256WithRsa_of lib sig = Inr sg"
    using that buffer_dispatch(2)[of sig lib sg buf key] by blast
  show "verifySignature_interest lib interest key =
        (l, if e = Signature_Error \<or> e = Block_Error then Value False else Raised e)"
    if "3 \<le> length (interest_name interest)
        \<and> interest_signature lib (interest_name interest) = (l, Raised e)"
    using that interest_dispatch(1)[of interest lib l e key] by blast
  show "verifySignature_interest lib interest key =
        (l @ [Call_SignatureSha256WithRsa],
         if e = Signature_Error \<or> e = Block_Error then Value False else Raised e)"
    if "3 \<le> length (interest_name interest)
        \<and> interest_signature lib (interest_name interest) = (l, Value (nameBlock, s))
        \<and> getType s = Sha256WithRsa \<and> SignatureSha256WithRsa_of lib s = Inl e"
    using that interest_dispatch(2)[of interest lib l nameBlock s e key] by blast
  show "verifySignature_interest lib interest key =
        (l @ Call_SignatureSha256WithRsa # fst (verifySignature_ptr_rsa lib (val nameBlock)
                   (size_t_minus (value_size nameBlock) (block_size (last (getAll nameBlock))))
                   sg key),
         if snd (verifySignature_ptr_rsa lib (val nameBlock)
                   (size_t_minus (value_size nameBlock) (block_size (last (getAll nameBlock))))
                   sg key) = Raised Signature_Error
          \<or> snd (verifySignature_ptr_rsa lib (val nameBlock)
                   (size_t_minus (value_size nameBlock) (block_size (last (getAll nameBlock))))
                   sg key) = Raised Block_Error
         then Value False
         else snd (verifySignature_ptr_rsa lib (val nameBlock)
                   (size_t_minus (value_size nameBlock) (block_size (last (getAll nameBlock))))
                   sg key))"
    if "3 \<le> length (interest_name interest)
        \<and> interest_signature lib (interest_name interest) = (l, Value (nameBlock, s))
        \<and> getType s = Sha256WithRsa \<and> SignatureSha256WithRsa_of lib s = Inr sg"
    using that interest_dispatch(3)[of interest lib l nameBlock s sg key] by blast
  show "verifySignature_data_rsa lib data sg key = ([Call_Load (key_bits key)], Raised e)"
    "verifySignature_buffer_rsa lib buf sg key = ([Call_Load (key_bits key)], Raised e)"
    "verifySignature_ptr_rsa lib buf len sg key = ([Call_Load (key_bits key)], Raised e)"
    if "Load lib (key_bits key) = Inl e"
    using that by (simp_all add: rsa_bodies_propagate)
  show "verifySignature_data_rsa lib data sg key =
        ([Call_Load (key_bits key), Call_data_wireEncode], Raised e)"
    if "Load lib (key_bits key) = Inr pk \<and> data_wireEncode lib data = Inl e"
    using that rsa_bodies_propagate(4)[of lib key pk data e sg] by blast
qed

theorem exactly_named_errors_become_false_witness:
  "getType (getSignature signed_data) = Sha256WithRsa
   \<and> SignatureSha256WithRsa_of rejecting_library (getSignature signed_data) = Inl Signature_Error
   \<and> verifySignature_data rejecting_library signed_data some_key
       = ([Call_SignatureSha256WithRsa], Value False)
   \<and> SignatureSha256WithRsa_of stub_library (getSignature signed_data)
       = Inr (getSignature signed_data)
   \<and> Load stub_library (key_bits empty_key) = Inl Other_exception
   \<and> verifySignature_buffer stub_library [1, 2] (getSignature signed_data) empty_key
       = ([Call_SignatureSha256WithRsa, Call_Load []], Raised Other_exception)
   \<and> 3 \<le> length (interest_name malformed_interest)
   \<and> interest_signature stub_library (interest_name malformed_interest)
       = ([Call_name_wireEncode, Call_blockFromValue], Raised Block_Error)
   \<and> verifySignature_interest stub_library malformed_interest some_key
       = ([Call_name_wireEncode, Call_blockFromValue], Value False)"
proof -
  let ?sg = "getSignature signed_data"
  have h1: "getType ?sg = Sha256WithRsa"
    and h2: "SignatureSha256WithRsa_of rejecting_library ?sg = Inl Signature_Error"
    and h3: "SignatureSha256WithRsa_of stub_library ?sg = Inr ?sg"
    and h4: "Load stub_library (key_bits empty_key) = Inl Other_exception"
    and h5: "3 \<le> length (interest_name malformed_interest)"
    by (simp_all add: signed_data_def signature_of_kind_def rejecting_library_def stub_library_def
          empty_key_def malformed_interest_def)
  note h6 = malformed_interest_signature
  have a: "verifySignature_data rejecting_library signed_data some_key
             = ([Call_SignatureSha256WithRsa], Value False)"
    using exactly_named_errors_become_false[of rejecting_library signed_data some_key _ _ _
            Signature_Error] h1 h2 by simp
  have r: "verifySignature_buffer_rsa stub_library [1, 2] ?sg empty_key
             = ([Call_Load (key_bits empty_key)], Raised Other_exception)"
    using exactly_named_errors_become_false[of stub_library _ empty_key "[1, 2]" _ _
            Other_exception ?sg] h4 by blast
  have "verifySignature_buffer stub_library [1, 2] ?sg empty_key =
          (Call_SignatureSha256WithRsa # fst (verifySignature_buffer_rsa stub_library [1, 2] ?sg empty_key),
           if snd (verifySignature_buffer_rsa stub_library [1, 2] ?sg empty_key) = Raised Signature_Error
           then Value False else snd (verifySignature_buffer_rsa stub_library [1, 2] ?sg empty_key))"
    using exactly_named_errors_become_false[of stub_library _ empty_key "[1, 2]" ?sg _ _ ?sg] h1 h3
    by blast
  then have b: "verifySignature_buffer stub_library [1, 2] ?sg empty_key
             = ([Call_SignatureSha256WithRsa, Call_Load []], Raised Other_exception)"
    unfolding r by (simp add: empty_key_def)
  have c: "verifySignature_interest stub_library malformed_interest some_key
             = ([Call_name_wireEncode, Call_blockFromValue], Value False)"
    using exactly_named_errors_become_false[of stub_library _ some_key _ _ malformed_interest
            Block_Error _ "[Call_name_wireEncode, Call_blockFromValue]"] h5 h6 by simp
  show ?thesis by (intro conjI h1 h2 h3 h4 h5 h6 a b c)
qed

end
